theory Spec2Isabelle
  imports Main
begin

section \<open>The wire protocol interface\<close>

text \<open>Modelled from the spec: the module \<^verbatim>\<open>daisy/tcp.py\<close>, from which
  \<^verbatim>\<open>client_scheduler.py\<close> imports \<^verbatim>\<open>ReturnCode\<close>, is not among the sources. The spec lists
  the return codes as the enumeration {SUCCESS, ERROR}.\<close>

datatype ReturnCode = SUCCESS | ERROR

text \<open>Modelled from the spec: the enumeration \<^verbatim>\<open>SchedulerMessageType\<close> of the missing module
  \<^verbatim>\<open>daisy/tcp.py\<close>. The spec names these five message kinds.\<close>

datatype SchedulerMessageType =
  NEW_BLOCK | TERMINATE_WORKER | WORKER_GET_BLOCK | WORKER_RET_BLOCK | WORKER_EXITING

text \<open>Modelled from the spec: the class \<^verbatim>\<open>Block\<close> is defined outside the sources. The client
  reads one attribute of a block, \<^verbatim>\<open>block.block_id\<close>, and treats the rest as opaque.\<close>

record Block =
  block_id :: int

text \<open>The field \<^verbatim>\<open>data\<close> of a message is an untyped Python value. These are the values that the
  client puts into a message or that the protocol carries: \<^verbatim>\<open>None\<close>, a block, a task
  identifier, and the pair \<^verbatim>\<open>((task_id, block_id), ret)\<close>.\<close>

datatype payload =
  PyNone
| PyBlock Block
| PyTaskId string
| PyRetBlock "(string \<times> int) \<times> ReturnCode"

text \<open>Modelled from the spec: the class \<^verbatim>\<open>SchedulerMessage\<close> of the missing module
  \<^verbatim>\<open>daisy/tcp.py\<close>, a pair of a message type and a payload that defaults to \<^verbatim>\<open>None\<close>.\<close>

record SchedulerMessage =
  msg_type :: SchedulerMessageType
  msg_data :: payload

text \<open>One \<^verbatim>\<open>await get_and_unpack_message(self.stream)\<close> either yields a message or raises
  \<^verbatim>\<open>StreamClosedError\<close>.\<close>

datatype recv_result = Message SchedulerMessage | StreamClosedError

section \<open>The state of a client\<close>

datatype log_level = LOG_DEBUG | LOG_INFO | LOG_WARNING | LOG_ERROR

text \<open>What the client does to the world outside the process, besides sending messages: a TCP
  connect to an address and a port, and a sleep (in milliseconds).\<close>

datatype io_event = TcpConnect string string | Sleep nat

text \<open>The coroutine \<^verbatim>\<open>async_recv\<close> has not been started, is inside its loop, or has returned.\<close>

datatype loop_state = IDLE | RUNNING | EXITED

datatype py_error = KeyError | ValueError

type_synonym iostream = nat

text \<open>The attributes of a \<^verbatim>\<open>ClientScheduler\<close> object, followed by the parts of the world that its
  methods act on. An attribute that the source has not yet assigned holds the empty string or
  the empty list.
  \<^item> \<open>outbox\<close>: the messages handed to \<^verbatim>\<open>send\<close>, which schedules \<^verbatim>\<open>async_send\<close> on the event
    loop, in the order of the calls;
  \<^item> \<open>logged\<close>: the calls of the logger, as level and format string;
  \<^item> \<open>io_trace\<close>: the connection attempts and the sleeps, in program order;
  \<^item> \<open>inbound\<close>: what the successive reads of the stream will yield; when the list is used up the
    stream stays open and silent, and the next read never completes;
  \<^item> \<open>recv_loop\<close>: where the coroutine \<^verbatim>\<open>async_recv\<close> stands.\<close>

record ClientScheduler =
  connected :: bool
  error_state :: bool
  stream :: "iostream option"
  sched_addr :: string
  sched_port :: string
  task_id :: string
  job_queue :: "payload list"
  outbox :: "SchedulerMessage list"
  logged :: "(log_level \<times> string) list"
  io_trace :: "io_event list"
  inbound :: "recv_result list"
  recv_loop :: loop_state

definition logger :: "log_level \<Rightarrow> string \<Rightarrow> ClientScheduler \<Rightarrow> ClientScheduler" where
  "logger lvl fmt c = c\<lparr>logged := logged c @ [(lvl, fmt)]\<rparr>"

definition sleep :: "nat \<Rightarrow> ClientScheduler \<Rightarrow> ClientScheduler" where
  "sleep ms c = c\<lparr>io_trace := io_trace c @ [Sleep ms]\<rparr>"

text \<open>\<^verbatim>\<open>send\<close>: \<^verbatim>\<open>self.ioloop.spawn_callback(self.async_send, pack_message(data))\<close>.\<close>

definition send :: "SchedulerMessage \<Rightarrow> ClientScheduler \<Rightarrow> ClientScheduler" where
  "send msg c = c\<lparr>outbox := outbox c @ [msg]\<rparr>"

section \<open>The constructor\<close>

text \<open>Python's \<^verbatim>\<open>s.split(sep)\<close> for a separator of one character: the pieces between the
  occurrences of the separator, empty pieces included.\<close>

fun str_split :: "char \<Rightarrow> string \<Rightarrow> string list" where
  "str_split sep [] = [[]]"
| "str_split sep (x # xs) =
     (if x = sep then [] # str_split sep xs
      else (case str_split sep xs of
              [] \<Rightarrow> [[x]]
            | w # ws \<Rightarrow> (x # w) # ws))"

text \<open>Lines 72 to 86 of \<^verbatim>\<open>__init__\<close>: when one of the three parameters is \<^verbatim>\<open>None\<close>, all three are
  read from the environment variable \<^verbatim>\<open>DAISY_CONTEXT\<close>. A missing variable raises \<^verbatim>\<open>KeyError\<close>;
  unpacking a list that has not exactly three elements raises \<^verbatim>\<open>ValueError\<close>.\<close>

definition read_context ::
  "string option \<Rightarrow> string option \<Rightarrow> string option \<Rightarrow> (string \<rightharpoonup> string) \<Rightarrow> ClientScheduler
    \<Rightarrow> (py_error \<times> ClientScheduler) + ((string \<times> string \<times> string) \<times> ClientScheduler)" where
  "read_context addr port tid environ c =
     (case (addr, port, tid) of
        (Some a, Some p, Some t) \<Rightarrow> Inr ((a, p, t), c)
      | _ \<Rightarrow>
         (case environ ''DAISY_CONTEXT'' of
            None \<Rightarrow>
              Inl (KeyError, logger LOG_ERROR ''DAISY_CONTEXT environment variable not found!'' c)
          | Some v \<Rightarrow>
              (case str_split (CHR '':'') v of
                 [a, p, t] \<Rightarrow> Inr ((a, p, t), c)
               | _ \<Rightarrow>
                 Inl (ValueError,
                      logger LOG_ERROR ''DAISY_CONTEXT found but incorrectly formatted!'' c))))"

text \<open>\<^verbatim>\<open>_connect_with_retry\<close>. The network is a function from the number of the attempt (which
  equals \<^verbatim>\<open>counter\<close>, the number of failures so far) to its outcome: a stream, or \<open>None\<close> when
  \<^verbatim>\<open>TCPClient().connect\<close> raises an \<^verbatim>\<open>Exception\<close>. The result \<open>None\<close> is the value \<^verbatim>\<open>None\<close> that
  the source returns.\<close>

function connect_with_retry_loop ::
  "(nat \<Rightarrow> iostream option) \<Rightarrow> nat \<Rightarrow> ClientScheduler \<Rightarrow> iostream option \<times> ClientScheduler" where
  "connect_with_retry_loop net counter c =
     (let c1 = c\<lparr>io_trace := io_trace c @ [TcpConnect (sched_addr c) (sched_port c)]\<rparr> in
      case net counter of
        Some s \<Rightarrow> (Some s, c1)
      | None \<Rightarrow>
          (let c2 = logger LOG_DEBUG ''TCP connect error, retry...'' c1;
               counter' = counter + 1
           in if counter' > 10 then (None, logger LOG_DEBUG ''Timeout, quitting.'' c2)
              else connect_with_retry_loop net counter' (sleep 1000 c2)))"
  by pat_completeness auto
termination
  by (relation "measure (\<lambda>(net, counter, c). 11 - counter)") auto

declare connect_with_retry_loop.simps [simp del]

definition connect_with_retry ::
  "(nat \<Rightarrow> iostream option) \<Rightarrow> ClientScheduler \<Rightarrow> iostream option \<times> ClientScheduler" where
  "connect_with_retry net c = connect_with_retry_loop net 0 c"

text \<open>\<^verbatim>\<open>_start\<close>, up to the point where it awaits \<^verbatim>\<open>async_recv\<close>: from there the receive loop is
  running on the stream, whose reads will yield \<open>rs\<close>.\<close>

definition start ::
  "(nat \<Rightarrow> iostream option) \<Rightarrow> recv_result list \<Rightarrow> ClientScheduler \<Rightarrow> ClientScheduler" where
  "start net rs c =
     (let c1 = logger LOG_INFO ''Connecting to scheduler at {}'' c;
          (s, c2) = connect_with_retry net c1;
          c3 = c2\<lparr>stream := s\<rparr>
      in case s of
           None \<Rightarrow> c3\<lparr>error_state := True\<rparr>
         | Some _ \<Rightarrow>
             (logger LOG_DEBUG ''Connected.'' (c3\<lparr>job_queue := [], connected := True\<rparr>))
               \<lparr>inbound := rs, recv_loop := RUNNING\<rparr>)"

datatype init_result =
  Raised py_error ClientScheduler
| Exited int ClientScheduler
| Polling ClientScheduler
| Constructed ClientScheduler

fun state_of :: "init_result \<Rightarrow> ClientScheduler" where
  "state_of (Raised e c) = c"
| "state_of (Exited n c) = c"
| "state_of (Polling c) = c"
| "state_of (Constructed c) = c"

text \<open>The loop at the end of \<^verbatim>\<open>__init__\<close>, which runs on the caller's thread while \<^verbatim>\<open>_start\<close> runs
  on the event loop. The first argument is the number of iterations that pass before \<^verbatim>\<open>_start\<close>
  has set a flag: in each of them \<^verbatim>\<open>self.connected\<close> and \<^verbatim>\<open>self.error_state\<close> still read
  \<^verbatim>\<open>False\<close>. After that the loop reads the flags as \<^verbatim>\<open>_start\<close> left them. When neither flag is
  set the loop goes on for ever, which is the result \<open>Polling\<close>.\<close>

fun wait_for_connection :: "nat \<Rightarrow> ClientScheduler \<Rightarrow> init_result" where
  "wait_for_connection (Suc d) c = wait_for_connection d (sleep 100 c)"
| "wait_for_connection 0 c =
     (if connected c then Constructed c
      else (let c1 = sleep 100 c in
            if error_state c1
            then Exited 1 (logger LOG_ERROR ''Cannot connect to Daisy scheduler'' c1)
            else Polling c1))"

definition new_client :: ClientScheduler where
  "new_client =
     \<lparr>connected = False, error_state = False, stream = None,
      sched_addr = [], sched_port = [], task_id = [],
      job_queue = [], outbox = [], logged = [], io_trace = [],
      inbound = [], recv_loop = IDLE\<rparr>"

text \<open>\<^verbatim>\<open>__init__\<close>. Besides the three parameters it depends on the environment variables, on the
  network (the outcomes of the connection attempts), on what the scheduler will send, and on the
  number of polls that pass before \<^verbatim>\<open>_start\<close> has finished connecting. The parameter \<^verbatim>\<open>ioloop\<close>
  only selects which event loop runs the callbacks.\<close>

definition init ::
  "string option \<Rightarrow> string option \<Rightarrow> string option \<Rightarrow> (string \<rightharpoonup> string)
    \<Rightarrow> (nat \<Rightarrow> iostream option) \<Rightarrow> recv_result list \<Rightarrow> nat \<Rightarrow> init_result" where
  "init addr port tid environ net rs d =
     (let c0 = logger LOG_INFO ''ClientScheduler init'' new_client in
      case read_context addr port tid environ c0 of
        Inl (e, c) \<Rightarrow> Raised e c
      | Inr ((a, p, t), c) \<Rightarrow>
          (let c1 = c\<lparr>sched_addr := a, sched_port := p, task_id := t\<rparr>;
               c2 = logger LOG_INFO ''Waiting for connection to Daisy scheduler...'' c1
           in wait_for_connection d (start net rs c2)))"

section \<open>The receive loop\<close>

text \<open>One pass through the body of the \<^verbatim>\<open>while True\<close> loop of \<^verbatim>\<open>async_recv\<close>, given what the
  read yields. The second component says whether the pass ends in \<^verbatim>\<open>break\<close>.\<close>

definition async_recv_body :: "recv_result \<Rightarrow> ClientScheduler \<Rightarrow> ClientScheduler \<times> bool" where
  "async_recv_body r c =
     (case r of
        StreamClosedError \<Rightarrow>
          (logger LOG_ERROR ''Unexpected loss of connection to scheduler!'' c, True)
      | Message msg \<Rightarrow>
          (let c1 = logger LOG_DEBUG ''Received {}'' c in
           if msg_type msg = NEW_BLOCK
           then (c1\<lparr>job_queue := job_queue c1 @ [msg_data msg]\<rparr>, False)
           else if msg_type msg = TERMINATE_WORKER
           then (send \<lparr>msg_type = WORKER_EXITING, msg_data = PyNone\<rparr> c1, True)
           else (c1, False)))"

text \<open>The lines after the loop: \<^verbatim>\<open>self.job_queue.append(None)\<close>, and the coroutine returns.\<close>

definition async_recv_finish :: "ClientScheduler \<Rightarrow> ClientScheduler" where
  "async_recv_finish c = c\<lparr>job_queue := job_queue c @ [PyNone], recv_loop := EXITED\<rparr>"

text \<open>One step of the coroutine: when it is in its loop and the stream has something to
  yield, one pass through the body, followed by the lines after the loop when the pass ends
  in \<^verbatim>\<open>break\<close>. Otherwise the coroutine has returned, or it is suspended in the read.\<close>

definition recv_step :: "ClientScheduler \<Rightarrow> ClientScheduler" where
  "recv_step c =
     (if recv_loop c = RUNNING then
        (case inbound c of
           [] \<Rightarrow> c
         | r # rs \<Rightarrow>
             (case async_recv_body r (c\<lparr>inbound := rs\<rparr>) of
                (c', True) \<Rightarrow> async_recv_finish c'
              | (c', False) \<Rightarrow> c'))
      else c)"

fun recv_steps :: "nat \<Rightarrow> ClientScheduler \<Rightarrow> ClientScheduler" where
  "recv_steps 0 c = c"
| "recv_steps (Suc n) c = recv_steps n (recv_step c)"

text \<open>\<^verbatim>\<open>async_recv\<close> run as far as it goes: until it returns, or until the stream has nothing more
  to yield (the state then still has \<open>recv_loop = RUNNING\<close>, the coroutine never returns).\<close>

function async_recv :: "ClientScheduler \<Rightarrow> ClientScheduler" where
  "async_recv c =
     (if recv_loop c = RUNNING \<and> inbound c \<noteq> [] then async_recv (recv_step c) else c)"
  by pat_completeness auto
termination
proof (relation "measure (\<lambda>c. length (inbound c))")
  show "wf (measure (\<lambda>c. length (inbound c)))" by simp
next
  fix c :: ClientScheduler
  assume "recv_loop c = RUNNING \<and> inbound c \<noteq> []"
  then show "(recv_step c, c) \<in> measure (\<lambda>c. length (inbound c))"
    by (cases "inbound c")
       (auto simp: recv_step_def async_recv_body_def async_recv_finish_def logger_def send_def
             Let_def split: recv_result.splits)
qed

declare async_recv.simps [simp del]

section \<open>The client API\<close>

text \<open>A call of a blocking method returns a value, or it never returns.\<close>

datatype 'a call = Returns 'a | Blocks

text \<open>The \<^verbatim>\<open>with self.job_queue_cv\<close> block of \<^verbatim>\<open>acquire_block\<close>. While the queue is empty the
  caller waits on the condition variable and only the receive loop makes progress. When the
  receive loop has returned, or the stream stays silent, nothing wakes the caller up.\<close>

function job_queue_pop :: "ClientScheduler \<Rightarrow> payload call \<times> ClientScheduler" where
  "job_queue_pop c =
     (case job_queue c of
        ret # q \<Rightarrow> (Returns ret, logger LOG_DEBUG ''Received block {}'' (c\<lparr>job_queue := q\<rparr>))
      | [] \<Rightarrow>
          (if recv_loop c = RUNNING \<and> inbound c \<noteq> [] then job_queue_pop (recv_step c)
           else (Blocks, c)))"
  by pat_completeness auto
termination
proof (relation "measure (\<lambda>c. length (inbound c))")
  show "wf (measure (\<lambda>c. length (inbound c)))" by simp
next
  fix c :: ClientScheduler
  assume "job_queue c = []" "recv_loop c = RUNNING \<and> inbound c \<noteq> []"
  then show "(recv_step c, c) \<in> measure (\<lambda>c. length (inbound c))"
    by (cases "inbound c")
       (auto simp: recv_step_def async_recv_body_def async_recv_finish_def logger_def send_def
             Let_def split: recv_result.splits)
qed

declare job_queue_pop.simps [simp del]

definition acquire_block :: "ClientScheduler \<Rightarrow> payload call \<times> ClientScheduler" where
  "acquire_block c =
     job_queue_pop (send \<lparr>msg_type = WORKER_GET_BLOCK, msg_data = PyTaskId (task_id c)\<rparr> c)"

definition release_block :: "Block \<Rightarrow> int \<Rightarrow> ClientScheduler \<Rightarrow> ClientScheduler" where
  "release_block block ret c =
     (let (code, c1) =
            (if ret = 0 then (SUCCESS, c)
             else if ret = 1 then (ERROR, c)
             else (SUCCESS,
                   logger LOG_WARNING
                     ''Daisy user function should return either 0 or 1--given %s'' c));
          c2 = logger LOG_DEBUG ''Releasing block {}'' c1
      in send \<lparr>msg_type = WORKER_RET_BLOCK,
               msg_data = PyRetBlock ((task_id c2, block_id block), code)\<rparr> c2)"

section \<open>Schedules\<close>

text \<open>The receive loop and the caller run concurrently; every access to the queue is made under
  the lock of the condition variable. A schedule lists, in the order in which they take effect,
  the steps of the receive loop (\<open>Tick\<close>) and the calls of the caller. The schedule ends when a
  call never returns, since the caller then makes no further call.\<close>

datatype action = Tick | Acquire | Release Block int

fun run :: "action list \<Rightarrow> ClientScheduler \<Rightarrow> payload call list \<times> ClientScheduler" where
  "run [] c = ([], c)"
| "run (Tick # as) c = run as (recv_step c)"
| "run (Release b ret # as) c = run as (release_block b ret c)"
| "run (Acquire # as) c =
     (case acquire_block c of
        (Blocks, c') \<Rightarrow> ([Blocks], c')
      | (Returns x, c') \<Rightarrow> (case run as c' of (xs, c'') \<Rightarrow> (Returns x # xs, c'')))"

section \<open>Well-formed input from the scheduler\<close>

fun is_block :: "payload \<Rightarrow> bool" where
  "is_block (PyBlock b) = True"
| "is_block _ = False"

text \<open>Modelled from the spec: the wire protocol, whose implementation is not among the sources,
  requires \<^verbatim>\<open>NEW_BLOCK(data=Block)\<close>: every \<^verbatim>\<open>NEW_BLOCK\<close> message that the stream yields carries a
  block.\<close>

definition wire_ok :: "recv_result list \<Rightarrow> bool" where
  "wire_ok rs =
     list_all (\<lambda>r. case r of
                     Message m \<Rightarrow> msg_type m = NEW_BLOCK \<longrightarrow> is_block (msg_data m)
                   | StreamClosedError \<Rightarrow> True) rs"

text \<open>The two events that make the receive loop leave its loop: a \<^verbatim>\<open>TERMINATE_WORKER\<close> message
  and a closed stream.\<close>

fun stops :: "recv_result \<Rightarrow> bool" where
  "stops StreamClosedError = True"
| "stops (Message m) = (msg_type m = TERMINATE_WORKER)"

text \<open>What the receive loop, from inside its loop, will append to the queue when the reads of
  the stream yield \<open>rs\<close>. The function only serves the proofs; \<open>async_recv_arrivals\<close> below
  relates it to \<open>async_recv\<close>.\<close>

fun arrivals :: "recv_result list \<Rightarrow> payload list" where
  "arrivals [] = []"
| "arrivals (StreamClosedError # rs) = [PyNone]"
| "arrivals (Message m # rs) =
     (if msg_type m = NEW_BLOCK then msg_data m # arrivals rs
      else if msg_type m = TERMINATE_WORKER then [PyNone]
      else arrivals rs)"

text \<open>Everything that is in the queue or that the receive loop will still append to it.\<close>

definition pending :: "ClientScheduler \<Rightarrow> payload list" where
  "pending c = job_queue c @ (if recv_loop c = RUNNING then arrivals (inbound c) else [])"

section \<open>Splitting the bootstrap string\<close>

lemma str_split_not_Nil: "str_split sep s \<noteq> []"
  by (induction s) (auto split: list.splits)

lemma str_split_no_sep: "sep \<notin> set a \<Longrightarrow> str_split sep a = [a]"
  by (induction a) auto

lemma str_split_field:
  "sep \<notin> set a \<Longrightarrow> str_split sep (a @ sep # rest) = a # str_split sep rest"
  by (induction a) (auto split: list.splits simp: str_split_not_Nil)

lemma length_str_split: "length (str_split sep s) = Suc (count_list s sep)"
  by (induction s) (auto split: list.splits simp: str_split_not_Nil)

lemma str_split_triplet:
  assumes "CHR '':'' \<notin> set a" "CHR '':'' \<notin> set p" "CHR '':'' \<notin> set t"
  shows "str_split (CHR '':'') (a @ '':'' @ p @ '':'' @ t) = [a, p, t]"
  using assms by (simp add: str_split_field str_split_no_sep)

lemma connect_loop_frame:
  "(snd (connect_with_retry_loop net k c))\<lparr>logged := lg, io_trace := tr\<rparr>
     = c\<lparr>logged := lg, io_trace := tr\<rparr>"
proof (induction net k c rule: connect_with_retry_loop.induct)
  case (1 net counter c)
  show ?case
  proof (cases "net counter")
    case (Some s)
    then show ?thesis
      by (subst connect_with_retry_loop.simps) (simp add: Let_def)
  next
    case None
    show ?thesis
    proof (cases "counter + 1 > 10")
      case True
      with None show ?thesis
        by (subst connect_with_retry_loop.simps) (simp add: Let_def logger_def)
    next
      case False
      note ih = 1[OF refl None refl refl False]
      with None False show ?thesis
        by (subst connect_with_retry_loop.simps) (simp add: Let_def logger_def sleep_def)
    qed
  qed
qed

section \<open>Connecting\<close>

lemma connect_loop_fields:
  "connected (snd (connect_with_retry_loop net k c)) = connected c"
  "error_state (snd (connect_with_retry_loop net k c)) = error_state c"
  "stream (snd (connect_with_retry_loop net k c)) = stream c"
  "sched_addr (snd (connect_with_retry_loop net k c)) = sched_addr c"
  "sched_port (snd (connect_with_retry_loop net k c)) = sched_port c"
  "task_id (snd (connect_with_retry_loop net k c)) = task_id c"
  "job_queue (snd (connect_with_retry_loop net k c)) = job_queue c"
  "outbox (snd (connect_with_retry_loop net k c)) = outbox c"
  "inbound (snd (connect_with_retry_loop net k c)) = inbound c"
  "recv_loop (snd (connect_with_retry_loop net k c)) = recv_loop c"
proof -
  note fr = connect_loop_frame[where net=net and k=k and c=c and lg="[]" and tr="[]"]
  show "connected (snd (connect_with_retry_loop net k c)) = connected c"
    using arg_cong[OF fr, where f=connected] by simp
  show "error_state (snd (connect_with_retry_loop net k c)) = error_state c"
    using arg_cong[OF fr, where f=error_state] by simp
  show "stream (snd (connect_with_retry_loop net k c)) = stream c"
    using arg_cong[OF fr, where f=stream] by simp
  show "sched_addr (snd (connect_with_retry_loop net k c)) = sched_addr c"
    using arg_cong[OF fr, where f=sched_addr] by simp
  show "sched_port (snd (connect_with_retry_loop net k c)) = sched_port c"
    using arg_cong[OF fr, where f=sched_port] by simp
  show "task_id (snd (connect_with_retry_loop net k c)) = task_id c"
    using arg_cong[OF fr, where f=task_id] by simp
  show "job_queue (snd (connect_with_retry_loop net k c)) = job_queue c"
    using arg_cong[OF fr, where f=job_queue] by simp
  show "outbox (snd (connect_with_retry_loop net k c)) = outbox c"
    using arg_cong[OF fr, where f=outbox] by simp
  show "inbound (snd (connect_with_retry_loop net k c)) = inbound c"
    using arg_cong[OF fr, where f=inbound] by simp
  show "recv_loop (snd (connect_with_retry_loop net k c)) = recv_loop c"
    using arg_cong[OF fr, where f=recv_loop] by simp
qed

lemma connect_loop_Some:
  "net k = Some s \<Longrightarrow>
   connect_with_retry_loop net k c =
     (Some s, c\<lparr>io_trace := io_trace c @ [TcpConnect (sched_addr c) (sched_port c)]\<rparr>)"
  by (subst connect_with_retry_loop.simps) (simp add: Let_def)

lemma connect_loop_give_up:
  "net k = None \<Longrightarrow> 10 \<le> k \<Longrightarrow>
   connect_with_retry_loop net k c =
     (None, logger LOG_DEBUG ''Timeout, quitting.''
              (logger LOG_DEBUG ''TCP connect error, retry...''
                 (c\<lparr>io_trace := io_trace c @ [TcpConnect (sched_addr c) (sched_port c)]\<rparr>)))"
  by (subst connect_with_retry_loop.simps) (simp add: Let_def)

lemma connect_loop_retry:
  "net k = None \<Longrightarrow> k < 10 \<Longrightarrow>
   connect_with_retry_loop net k c =
     connect_with_retry_loop net (Suc k)
       (sleep 1000 (logger LOG_DEBUG ''TCP connect error, retry...''
          (c\<lparr>io_trace := io_trace c @ [TcpConnect (sched_addr c) (sched_port c)]\<rparr>)))"
  by (subst connect_with_retry_loop.simps) (simp add: Let_def)

lemma connect_loop_trace:
  "counter + n = 10 \<Longrightarrow>
   \<exists>k. counter \<le> k \<and> k \<le> 10
     \<and> io_trace (snd (connect_with_retry_loop net counter c)) =
         io_trace c
         @ concat (replicate (k - counter) [TcpConnect (sched_addr c) (sched_port c), Sleep 1000])
         @ [TcpConnect (sched_addr c) (sched_port c)]
     \<and> (\<forall>j. counter \<le> j \<and> j < k \<longrightarrow> net j = None)
     \<and> fst (connect_with_retry_loop net counter c) = net k
     \<and> (net k = None \<longrightarrow> k = 10)"
proof (induction n arbitrary: counter c)
  case 0
  then have c10: "counter = 10" by simp
  show ?case
  proof (cases "net counter")
    case None
    with c10 show ?thesis
      by (intro exI[of _ 10]) (auto simp: connect_loop_give_up logger_def)
  next
    case (Some s)
    with c10 show ?thesis
      by (intro exI[of _ 10]) (auto simp: connect_loop_Some)
  qed
next
  case (Suc n)
  then have lt: "counter < 10" and nxt: "Suc counter + n = 10" by simp_all
  show ?case
  proof (cases "net counter")
    case (Some s)
    with lt show ?thesis
      by (intro exI[of _ counter]) (auto simp: connect_loop_Some)
  next
    case None
    let ?c = "sleep 1000 (logger LOG_DEBUG ''TCP connect error, retry...''
          (c\<lparr>io_trace := io_trace c @ [TcpConnect (sched_addr c) (sched_port c)]\<rparr>))"
    have cf: "sched_addr ?c = sched_addr c" "sched_port ?c = sched_port c"
      "io_trace ?c = io_trace c @ [TcpConnect (sched_addr c) (sched_port c), Sleep 1000]"
      by (simp_all add: sleep_def logger_def)
    from Suc.IH[OF nxt, of ?c] obtain k where k:
      "Suc counter \<le> k \<and> k \<le> 10
       \<and> io_trace (snd (connect_with_retry_loop net (Suc counter) ?c)) =
         io_trace ?c
         @ concat (replicate (k - Suc counter) [TcpConnect (sched_addr ?c) (sched_port ?c), Sleep 1000])
         @ [TcpConnect (sched_addr ?c) (sched_port ?c)]
       \<and> (\<forall>j. Suc counter \<le> j \<and> j < k \<longrightarrow> net j = None)
       \<and> fst (connect_with_retry_loop net (Suc counter) ?c) = net k
       \<and> (net k = None \<longrightarrow> k = 10)" ..
    note k1 = k[THEN conjunct1]
    note k2 = k[THEN conjunct2, THEN conjunct1]
    note k3 = k[THEN conjunct2, THEN conjunct2, THEN conjunct1]
    note k4 = k[THEN conjunct2, THEN conjunct2, THEN conjunct2, THEN conjunct1]
    note k5 = k[THEN conjunct2, THEN conjunct2, THEN conjunct2, THEN conjunct2, THEN conjunct1]
    note k6 = k[THEN conjunct2, THEN conjunct2, THEN conjunct2, THEN conjunct2, THEN conjunct2]
    have rep: "k - counter = Suc (k - Suc counter)" using k1 by simp
    have noneq: "\<forall>j. counter \<le> j \<and> j < k \<longrightarrow> net j = None"
    proof (intro allI impI)
      fix j assume "counter \<le> j \<and> j < k"
      then show "net j = None" using None k4 by (cases "j = counter") auto
    qed
    have step: "connect_with_retry_loop net counter c = connect_with_retry_loop net (Suc counter) ?c"
      by (rule connect_loop_retry[where net=net and k=counter, OF None lt])
    have tr: "io_trace (snd (connect_with_retry_loop net counter c)) =
         io_trace c
         @ concat (replicate (k - counter) [TcpConnect (sched_addr c) (sched_port c), Sleep 1000])
         @ [TcpConnect (sched_addr c) (sched_port c)]"
      unfolding step rep using k3 by (simp add: cf)
    have res: "fst (connect_with_retry_loop net counter c) = net k"
      unfolding step by (rule k5)
    have le: "counter \<le> k" using k1 by simp
    show ?thesis
      using le k2 tr noneq res k6 by (intro exI[of _ k]) blast
  qed
qed

text \<open>C5. \<^verbatim>\<open>_connect_with_retry\<close> makes one attempt and at most 10 retries, sleeps one second
  before each retry, and returns the outcome of its last attempt: a stream, or the value \<open>None\<close>
  after the eleventh failure. The function is total: it returns for every network.\<close>

theorem connect_with_retry_bounded:
  "\<exists>k\<le>10.
      io_trace (snd (connect_with_retry net c)) =
        io_trace c
        @ concat (replicate k [TcpConnect (sched_addr c) (sched_port c), Sleep 1000])
        @ [TcpConnect (sched_addr c) (sched_port c)]
    \<and> (\<forall>j<k. net j = None)
    \<and> fst (connect_with_retry net c) = net k
    \<and> (net k = None \<longrightarrow> k = 10)"
  using connect_loop_trace[of 0 10 net c] unfolding connect_with_retry_def by auto

theorem connect_with_retry_bounded_witness:
  "fst (connect_with_retry (\<lambda>i. if i < 2 then None else Some 5)
         (new_client\<lparr>sched_addr := ''10.0.0.5'', sched_port := ''9000''\<rparr>)) = Some 5
   \<and> io_trace (snd (connect_with_retry (\<lambda>i. if i < 2 then None else Some 5)
         (new_client\<lparr>sched_addr := ''10.0.0.5'', sched_port := ''9000''\<rparr>))) =
       [TcpConnect ''10.0.0.5'' ''9000'', Sleep 1000,
        TcpConnect ''10.0.0.5'' ''9000'', Sleep 1000,
        TcpConnect ''10.0.0.5'' ''9000'']
   \<and> fst (connect_with_retry (\<lambda>i. None) new_client) = None
   \<and> length (filter (\<lambda>e. e = TcpConnect [] []) (io_trace (snd (connect_with_retry (\<lambda>i. None) new_client)))) = 11
   \<and> length (filter (\<lambda>e. e = Sleep 1000) (io_trace (snd (connect_with_retry (\<lambda>i. None) new_client)))) = 10"
  using connect_with_retry_bounded[of "\<lambda>i. if i < 2 then None else Some 5"
          "new_client\<lparr>sched_addr := ''10.0.0.5'', sched_port := ''9000''\<rparr>"]
  by (simp add: connect_with_retry_def connect_loop_Some connect_loop_retry connect_loop_give_up
        logger_def sleep_def new_client_def)

lemma connect_with_retry_None:
  "fst (connect_with_retry net c) = None \<longleftrightarrow> (\<forall>j\<le>10. net j = None)"
proof -
  from connect_loop_trace[of 0 10 net c] obtain k where k:
    "k \<le> 10" "\<forall>j. j < k \<longrightarrow> net j = None" "fst (connect_with_retry net c) = net k"
    "net k = None \<longrightarrow> k = 10"
    unfolding connect_with_retry_def by auto
  show ?thesis
  proof
    assume "fst (connect_with_retry net c) = None"
    with k have "k = 10" "net 10 = None" by auto
    with k(2) show "\<forall>j\<le>10. net j = None"
      by (metis le_neq_implies_less)
  next
    assume "\<forall>j\<le>10. net j = None"
    with k show "fst (connect_with_retry net c) = None" by simp
  qed
qed

lemma connect_with_retry_fields:
  "connected (snd (connect_with_retry net c)) = connected c"
  "error_state (snd (connect_with_retry net c)) = error_state c"
  "sched_addr (snd (connect_with_retry net c)) = sched_addr c"
  "sched_port (snd (connect_with_retry net c)) = sched_port c"
  "task_id (snd (connect_with_retry net c)) = task_id c"
  "outbox (snd (connect_with_retry net c)) = outbox c"
  by (simp_all add: connect_with_retry_def connect_loop_fields)

lemma start_unfold:
  "start net rs c =
     (let r = connect_with_retry net (logger LOG_INFO ''Connecting to scheduler at {}'' c);
          c3 = (snd r)\<lparr>stream := fst r\<rparr>
      in case fst r of
           None \<Rightarrow> c3\<lparr>error_state := True\<rparr>
         | Some _ \<Rightarrow>
             (logger LOG_DEBUG ''Connected.'' (c3\<lparr>job_queue := [], connected := True\<rparr>))
               \<lparr>inbound := rs, recv_loop := RUNNING\<rparr>)"
  by (cases "connect_with_retry net (logger LOG_INFO ''Connecting to scheduler at {}'' c)")
     (simp add: start_def Let_def split: option.splits)

lemma start_fields:
  "sched_addr (start net rs c) = sched_addr c"
  "sched_port (start net rs c) = sched_port c"
  "task_id (start net rs c) = task_id c"
  "outbox (start net rs c) = outbox c"
  by (simp_all add: start_unfold Let_def connect_with_retry_fields logger_def split: option.splits)

lemma start_connected:
  "connected (start net rs c) = (connected c \<or> (\<exists>j\<le>10. net j \<noteq> None))"
proof (cases "fst (connect_with_retry net (logger LOG_INFO ''Connecting to scheduler at {}'' c))")
  case None
  then show ?thesis
    using connect_with_retry_None[of net "logger LOG_INFO ''Connecting to scheduler at {}'' c"]
    by (auto simp add: start_unfold Let_def connect_with_retry_fields logger_def)
next
  case (Some s)
  then show ?thesis
    using connect_with_retry_None[of net "logger LOG_INFO ''Connecting to scheduler at {}'' c"]
    by (auto simp add: start_unfold Let_def connect_with_retry_fields logger_def)
qed

lemma start_error_state:
  "error_state (start net rs c) = (error_state c \<or> (\<forall>j\<le>10. net j = None))"
proof (cases "fst (connect_with_retry net (logger LOG_INFO ''Connecting to scheduler at {}'' c))")
  case None
  then show ?thesis
    using connect_with_retry_None[of net "logger LOG_INFO ''Connecting to scheduler at {}'' c"]
    by (auto simp add: start_unfold Let_def connect_with_retry_fields logger_def)
next
  case (Some s)
  then show ?thesis
    using connect_with_retry_None[of net "logger LOG_INFO ''Connecting to scheduler at {}'' c"]
    by (auto simp add: start_unfold Let_def connect_with_retry_fields logger_def)
qed

lemma start_recv:
  "\<exists>j\<le>10. net j \<noteq> None \<Longrightarrow>
     recv_loop (start net rs c) = RUNNING \<and> inbound (start net rs c) = rs
     \<and> job_queue (start net rs c) = []"
  using connect_with_retry_None[of net "logger LOG_INFO ''Connecting to scheduler at {}'' c"]
  by (cases "fst (connect_with_retry net (logger LOG_INFO ''Connecting to scheduler at {}'' c))")
     (auto simp add: start_unfold Let_def logger_def)

lemma wait_for_connection_eq:
  "wait_for_connection d c =
     (if connected c
      then Constructed (c\<lparr>io_trace := io_trace c @ replicate d (Sleep 100)\<rparr>)
      else if error_state c
      then Exited 1 (logger LOG_ERROR ''Cannot connect to Daisy scheduler''
                       (c\<lparr>io_trace := io_trace c @ replicate (Suc d) (Sleep 100)\<rparr>))
      else Polling (c\<lparr>io_trace := io_trace c @ replicate (Suc d) (Sleep 100)\<rparr>))"
proof (induction d arbitrary: c)
  case 0
  show ?case by (simp add: sleep_def Let_def)
next
  case (Suc d)
  have "replicate d (Sleep 100) @ [Sleep 100] = Sleep 100 # replicate d (Sleep 100)"
    by (simp add: replicate_append_same)
  then show ?case
    by (simp add: Suc.IH sleep_def replicate_append_same[symmetric] del: replicate_Suc replicate.simps)
       (simp add: replicate_append_same)
qed

lemma unpack_triplet_fail:
  "length xs \<noteq> 3 \<Longrightarrow> (case xs of [a, p, t] \<Rightarrow> f a p t | _ \<Rightarrow> g) = g"
  by (auto split: list.splits)

lemma read_context_environ:
  "addr = None \<or> port = None \<or> tid = None \<Longrightarrow>
   read_context addr port tid environ c =
     (case environ ''DAISY_CONTEXT'' of
        None \<Rightarrow>
          Inl (KeyError, logger LOG_ERROR ''DAISY_CONTEXT environment variable not found!'' c)
      | Some v \<Rightarrow>
          (case str_split (CHR '':'') v of
             [a, p, t] \<Rightarrow> Inr ((a, p, t), c)
           | _ \<Rightarrow>
             Inl (ValueError,
                  logger LOG_ERROR ''DAISY_CONTEXT found but incorrectly formatted!'' c)))"
  by (cases addr; cases port; cases tid) (simp_all add: read_context_def)

lemma read_context_given:
  "read_context (Some a) (Some p) (Some t) environ c = Inr ((a, p, t), c)"
  by (simp add: read_context_def)

lemma init_missing:
  "addr = None \<or> port = None \<or> tid = None \<Longrightarrow> environ ''DAISY_CONTEXT'' = None \<Longrightarrow>
   init addr port tid environ net rs d =
     Raised KeyError
       (logger LOG_ERROR ''DAISY_CONTEXT environment variable not found!''
          (logger LOG_INFO ''ClientScheduler init'' new_client))"
  by (simp add: init_def read_context_environ)

lemma init_malformed:
  "addr = None \<or> port = None \<or> tid = None \<Longrightarrow> environ ''DAISY_CONTEXT'' = Some v \<Longrightarrow>
   count_list v (CHR '':'') \<noteq> 2 \<Longrightarrow>
   init addr port tid environ net rs d =
     Raised ValueError
       (logger LOG_ERROR ''DAISY_CONTEXT found but incorrectly formatted!''
          (logger LOG_INFO ''ClientScheduler init'' new_client))"
  by (simp add: init_def read_context_environ unpack_triplet_fail length_str_split)

lemma init_resolved:
  "read_context addr port tid environ (logger LOG_INFO ''ClientScheduler init'' new_client)
     = Inr ((a, p, t), c) \<Longrightarrow>
   init addr port tid environ net rs d =
     wait_for_connection d
       (start net rs
          (logger LOG_INFO ''Waiting for connection to Daisy scheduler...''
             (c\<lparr>sched_addr := a, sched_port := p, task_id := t\<rparr>)))"
  by (simp add: init_def)

lemma init_valid:
  assumes "addr = None \<or> port = None \<or> tid = None"
    and "environ ''DAISY_CONTEXT'' = Some (a @ '':'' @ p @ '':'' @ t)"
    and "CHR '':'' \<notin> set a" "CHR '':'' \<notin> set p" "CHR '':'' \<notin> set t"
  shows "init addr port tid environ net rs d =
     wait_for_connection d
       (start net rs
          (logger LOG_INFO ''Waiting for connection to Daisy scheduler...''
             ((logger LOG_INFO ''ClientScheduler init'' new_client)
                \<lparr>sched_addr := a, sched_port := p, task_id := t\<rparr>)))"
  using assms(2) str_split_triplet[OF assms(3-5)]
  by (intro init_resolved) (simp add: read_context_environ[OF assms(1)])

lemma init_given:
  "init (Some a) (Some p) (Some t) environ net rs d =
     wait_for_connection d
       (start net rs
          (logger LOG_INFO ''Waiting for connection to Daisy scheduler...''
             ((logger LOG_INFO ''ClientScheduler init'' new_client)
                \<lparr>sched_addr := a, sched_port := p, task_id := t\<rparr>)))"
  by (intro init_resolved) (simp add: read_context_given)

lemma wait_fields:
  "sched_addr (state_of (wait_for_connection d c)) = sched_addr c"
  "sched_port (state_of (wait_for_connection d c)) = sched_port c"
  "task_id (state_of (wait_for_connection d c)) = task_id c"
  "connected (state_of (wait_for_connection d c)) = connected c"
  "error_state (state_of (wait_for_connection d c)) = error_state c"
  "job_queue (state_of (wait_for_connection d c)) = job_queue c"
  "inbound (state_of (wait_for_connection d c)) = inbound c"
  "recv_loop (state_of (wait_for_connection d c)) = recv_loop c"
  "outbox (state_of (wait_for_connection d c)) = outbox c"
  by (simp_all add: wait_for_connection_eq logger_def)

lemma wait_not_Raised: "wait_for_connection d c \<noteq> Raised e c'"
  by (simp add: wait_for_connection_eq)

lemma init_Raised_untouched:
  assumes "init addr port tid environ net rs d = Raised e c"
  shows "io_trace c = [] \<and> recv_loop c = IDLE \<and> outbox c = []"
proof (cases "read_context addr port tid environ (logger LOG_INFO ''ClientScheduler init'' new_client)")
  case (Inl x)
  then show ?thesis using assms
    by (cases "addr = None \<or> port = None \<or> tid = None")
       (auto simp: init_def read_context_environ read_context_def logger_def new_client_def
             split: option.splits list.splits)
next
  case (Inr y)
  then obtain a p t c' where "y = ((a, p, t), c')" by (metis prod_cases3 surj_pair)
  with Inr assms show ?thesis by (simp add: init_resolved wait_not_Raised)
qed

section \<open>The bootstrap string\<close>

text \<open>C4. When a parameter is missing, the constructor reads the bootstrap string from
  \<^verbatim>\<open>DAISY_CONTEXT\<close>. A string \<^verbatim>\<open>"<address>:<port>:<task_id>"\<close> whose three fields hold no colon
  is parsed into exactly these fields, and the constructor does not raise. A string that has
  not exactly two colons makes the constructor raise \<^verbatim>\<open>ValueError\<close>, a missing variable makes
  it raise \<^verbatim>\<open>KeyError\<close>, each after its own log message; and whenever the constructor raises,
  no connection has been attempted and the receive loop has not been started.\<close>

theorem init_bootstrap_string:
  assumes "addr = None \<or> port = None \<or> tid = None"
  shows
  "(CHR '':'' \<notin> set a \<and> CHR '':'' \<notin> set p \<and> CHR '':'' \<notin> set t
      \<and> environ ''DAISY_CONTEXT'' = Some (a @ '':'' @ p @ '':'' @ t) \<longrightarrow>
        sched_addr (state_of (init addr port tid environ net rs d)) = a
      \<and> sched_port (state_of (init addr port tid environ net rs d)) = p
      \<and> task_id (state_of (init addr port tid environ net rs d)) = t
      \<and> (\<forall>e c. init addr port tid environ net rs d \<noteq> Raised e c))
   \<and> (\<forall>v. environ ''DAISY_CONTEXT'' = Some v \<and> count_list v (CHR '':'') \<noteq> 2 \<longrightarrow>
        init addr port tid environ net rs d =
          Raised ValueError
            (logger LOG_ERROR ''DAISY_CONTEXT found but incorrectly formatted!''
               (logger LOG_INFO ''ClientScheduler init'' new_client)))
   \<and> (environ ''DAISY_CONTEXT'' = None \<longrightarrow>
        init addr port tid environ net rs d =
          Raised KeyError
            (logger LOG_ERROR ''DAISY_CONTEXT environment variable not found!''
               (logger LOG_INFO ''ClientScheduler init'' new_client)))
   \<and> (\<forall>e c. init addr port tid environ net rs d = Raised e c \<longrightarrow>
        io_trace c = [] \<and> recv_loop c = IDLE)"
proof (intro conjI impI allI)
  fix e c assume "init addr port tid environ net rs d = Raised e c"
  then show "io_trace c = []" "recv_loop c = IDLE"
    using init_Raised_untouched by blast+
next
  fix v assume "environ ''DAISY_CONTEXT'' = Some v \<and> count_list v (CHR '':'') \<noteq> 2"
  then show "init addr port tid environ net rs d =
          Raised ValueError
            (logger LOG_ERROR ''DAISY_CONTEXT found but incorrectly formatted!''
               (logger LOG_INFO ''ClientScheduler init'' new_client))"
    using init_malformed[OF assms] by blast
next
  assume "environ ''DAISY_CONTEXT'' = None"
  then show "init addr port tid environ net rs d =
          Raised KeyError
            (logger LOG_ERROR ''DAISY_CONTEXT environment variable not found!''
               (logger LOG_INFO ''ClientScheduler init'' new_client))"
    by (rule init_missing[OF assms])
next
  assume v: "CHR '':'' \<notin> set a \<and> CHR '':'' \<notin> set p \<and> CHR '':'' \<notin> set t
      \<and> environ ''DAISY_CONTEXT'' = Some (a @ '':'' @ p @ '':'' @ t)"
  then have eq: "init addr port tid environ net rs d =
     wait_for_connection d
       (start net rs
          (logger LOG_INFO ''Waiting for connection to Daisy scheduler...''
             ((logger LOG_INFO ''ClientScheduler init'' new_client)
                \<lparr>sched_addr := a, sched_port := p, task_id := t\<rparr>)))"
    using init_valid[OF assms] by blast
  show "sched_addr (state_of (init addr port tid environ net rs d)) = a"
    by (simp add: eq wait_fields start_fields logger_def)
  show "sched_port (state_of (init addr port tid environ net rs d)) = p"
    by (simp add: eq wait_fields start_fields logger_def)
  show "task_id (state_of (init addr port tid environ net rs d)) = t"
    by (simp add: eq wait_fields start_fields logger_def)
  fix e c
  show "init addr port tid environ net rs d \<noteq> Raised e c"
    by (simp add: eq wait_not_Raised)
qed

theorem init_bootstrap_string_witness:
  "sched_addr (state_of (init None None None [''DAISY_CONTEXT'' \<mapsto> ''10.0.0.5:9000:worker-7'']
      (\<lambda>i. Some 1) [] 0)) = ''10.0.0.5''
   \<and> sched_port (state_of (init None None None [''DAISY_CONTEXT'' \<mapsto> ''10.0.0.5:9000:worker-7'']
      (\<lambda>i. Some 1) [] 0)) = ''9000''
   \<and> task_id (state_of (init None None None [''DAISY_CONTEXT'' \<mapsto> ''10.0.0.5:9000:worker-7'']
      (\<lambda>i. Some 1) [] 0)) = ''worker-7''
   \<and> init None None None [''DAISY_CONTEXT'' \<mapsto> ''10.0.0.5:9000''] (\<lambda>i. Some 1) [] 0 =
       Raised ValueError
         (logger LOG_ERROR ''DAISY_CONTEXT found but incorrectly formatted!''
            (logger LOG_INFO ''ClientScheduler init'' new_client))
   \<and> init None None None Map.empty (\<lambda>i. Some 1) [] 0 =
       Raised KeyError
         (logger LOG_ERROR ''DAISY_CONTEXT environment variable not found!''
            (logger LOG_INFO ''ClientScheduler init'' new_client))"
  using init_bootstrap_string[of None None None "''10.0.0.5''" "''9000''" "''worker-7''"
          "[''DAISY_CONTEXT'' \<mapsto> ''10.0.0.5:9000:worker-7'']" "\<lambda>i. Some 1" "[]" 0]
        init_bootstrap_string[of None None None "''''" "''''" "''''"
          "[''DAISY_CONTEXT'' \<mapsto> ''10.0.0.5:9000'']" "\<lambda>i. Some 1" "[]" 0]
        init_bootstrap_string[of None None None "''''" "''''" "''''"
          "Map.empty" "\<lambda>i. Some 1" "[]" 0]
  by simp

lemma init_cases:
  "(\<exists>e c. init addr port tid environ net rs d = Raised e c)
   \<or> (\<exists>c. init addr port tid environ net rs d = wait_for_connection d (start net rs c))"
proof (cases "read_context addr port tid environ (logger LOG_INFO ''ClientScheduler init'' new_client)")
  case (Inl x)
  then show ?thesis by (cases x) (simp add: init_def)
next
  case (Inr y)
  then obtain a p t c' where "y = ((a, p, t), c')" by (metis prod_cases3 surj_pair)
  with Inr show ?thesis using init_resolved by blast
qed

lemma init_flags_initial:
  assumes w: "init addr port tid environ net rs d = wait_for_connection d (start net rs c)"
  shows "\<exists>c'. init addr port tid environ net rs d = wait_for_connection d (start net rs c')
      \<and> \<not> connected c' \<and> \<not> error_state c'"
proof (cases "read_context addr port tid environ (logger LOG_INFO ''ClientScheduler init'' new_client)")
  case (Inl x)
  then have "\<exists>e c'. init addr port tid environ net rs d = Raised e c'"
    by (cases x) (simp add: init_def)
  with w show ?thesis by (metis wait_not_Raised)
next
  case (Inr y)
  then obtain a p t c' where y: "y = ((a, p, t), c')" by (metis prod_cases3 surj_pair)
  have c': "c' = logger LOG_INFO ''ClientScheduler init'' new_client"
    using Inr y
    by (cases "addr = None \<or> port = None \<or> tid = None")
       (auto simp: read_context_environ read_context_def split: option.splits list.splits)
  show ?thesis
    using init_resolved[OF Inr[unfolded y]]
    by (intro exI[of _ "logger LOG_INFO ''Waiting for connection to Daisy scheduler...''
             (c'\<lparr>sched_addr := a, sched_port := p, task_id := t\<rparr>)"])
       (simp add: c' logger_def new_client_def)
qed

section \<open>A failed initial connection\<close>



section \<open>Parameters given in part\<close>

text \<open>C10. When one of the three parameters is \<^verbatim>\<open>None\<close>, the constructor behaves as if none had
  been given: a missing \<^verbatim>\<open>DAISY_CONTEXT\<close> raises \<^verbatim>\<open>KeyError\<close>, a malformed one raises
  \<^verbatim>\<open>ValueError\<close>, and a well-formed one supplies all three values, the given parameters being
  discarded. When all three parameters are given, the result does not depend on the
  environment, the three values are the given ones, and the constructor does not raise.\<close>

theorem init_partial_parameters:
  "(addr = None \<or> port = None \<or> tid = None \<longrightarrow>
      init addr port tid environ net rs d = init None None None environ net rs d
    \<and> (environ ''DAISY_CONTEXT'' = None \<longrightarrow>
         (\<exists>c. init addr port tid environ net rs d = Raised KeyError c))
    \<and> (\<forall>v. environ ''DAISY_CONTEXT'' = Some v \<and> count_list v (CHR '':'') \<noteq> 2 \<longrightarrow>
         (\<exists>c. init addr port tid environ net rs d = Raised ValueError c))
    \<and> (\<forall>a' p' t'. CHR '':'' \<notin> set a' \<and> CHR '':'' \<notin> set p' \<and> CHR '':'' \<notin> set t'
          \<and> environ ''DAISY_CONTEXT'' = Some (a' @ '':'' @ p' @ '':'' @ t') \<longrightarrow>
            sched_addr (state_of (init addr port tid environ net rs d)) = a'
          \<and> sched_port (state_of (init addr port tid environ net rs d)) = p'
          \<and> task_id (state_of (init addr port tid environ net rs d)) = t'))
   \<and> init (Some a) (Some p) (Some t) environ net rs d
       = init (Some a) (Some p) (Some t) environ' net rs d
   \<and> sched_addr (state_of (init (Some a) (Some p) (Some t) environ net rs d)) = a
   \<and> sched_port (state_of (init (Some a) (Some p) (Some t) environ net rs d)) = p
   \<and> task_id (state_of (init (Some a) (Some p) (Some t) environ net rs d)) = t
   \<and> (\<forall>e c. init (Some a) (Some p) (Some t) environ net rs d \<noteq> Raised e c)"
proof (intro conjI impI allI)
  assume part: "addr = None \<or> port = None \<or> tid = None"
  show "init addr port tid environ net rs d = init None None None environ net rs d"
    by (simp add: init_def read_context_environ[OF part] read_context_environ[of None None None])
  { assume "environ ''DAISY_CONTEXT'' = None"
    then show "\<exists>c. init addr port tid environ net rs d = Raised KeyError c"
      using init_missing[OF part] by blast }
  { fix v assume "environ ''DAISY_CONTEXT'' = Some v \<and> count_list v (CHR '':'') \<noteq> 2"
    then show "\<exists>c. init addr port tid environ net rs d = Raised ValueError c"
      using init_malformed[OF part] by blast }
  { fix a' p' t'
    assume v: "CHR '':'' \<notin> set a' \<and> CHR '':'' \<notin> set p' \<and> CHR '':'' \<notin> set t'
          \<and> environ ''DAISY_CONTEXT'' = Some (a' @ '':'' @ p' @ '':'' @ t')"
    then have eq: "init addr port tid environ net rs d =
       wait_for_connection d
         (start net rs
            (logger LOG_INFO ''Waiting for connection to Daisy scheduler...''
               ((logger LOG_INFO ''ClientScheduler init'' new_client)
                  \<lparr>sched_addr := a', sched_port := p', task_id := t'\<rparr>)))"
      using init_valid[OF part] by blast
    show "sched_addr (state_of (init addr port tid environ net rs d)) = a'"
      by (simp add: eq wait_fields start_fields logger_def)
    show "sched_port (state_of (init addr port tid environ net rs d)) = p'"
      by (simp add: eq wait_fields start_fields logger_def)
    show "task_id (state_of (init addr port tid environ net rs d)) = t'"
      by (simp add: eq wait_fields start_fields logger_def) }
next
  show "init (Some a) (Some p) (Some t) environ net rs d
       = init (Some a) (Some p) (Some t) environ' net rs d"
    by (simp add: init_given)
  show "sched_addr (state_of (init (Some a) (Some p) (Some t) environ net rs d)) = a"
    by (simp add: init_given wait_fields start_fields logger_def)
  show "sched_port (state_of (init (Some a) (Some p) (Some t) environ net rs d)) = p"
    by (simp add: init_given wait_fields start_fields logger_def)
  show "task_id (state_of (init (Some a) (Some p) (Some t) environ net rs d)) = t"
    by (simp add: init_given wait_fields start_fields logger_def)
  fix e c
  show "init (Some a) (Some p) (Some t) environ net rs d \<noteq> Raised e c"
    by (simp add: init_given wait_not_Raised)
qed

theorem init_partial_parameters_witness:
  "sched_addr (state_of (init (Some ''192.168.1.1'') None (Some ''mine'')
      [''DAISY_CONTEXT'' \<mapsto> ''10.0.0.5:9000:worker-7''] (\<lambda>i. Some 1) [] 0)) = ''10.0.0.5''
   \<and> sched_port (state_of (init (Some ''192.168.1.1'') None (Some ''mine'')
      [''DAISY_CONTEXT'' \<mapsto> ''10.0.0.5:9000:worker-7''] (\<lambda>i. Some 1) [] 0)) = ''9000''
   \<and> task_id (state_of (init (Some ''192.168.1.1'') None (Some ''mine'')
      [''DAISY_CONTEXT'' \<mapsto> ''10.0.0.5:9000:worker-7''] (\<lambda>i. Some 1) [] 0)) = ''worker-7''
   \<and> (\<exists>c. init (Some ''192.168.1.1'') None (Some ''mine'') Map.empty (\<lambda>i. Some 1) [] 0
          = Raised KeyError c)
   \<and> (\<exists>c. init (Some ''192.168.1.1'') None (Some ''mine'')
            [''DAISY_CONTEXT'' \<mapsto> ''10.0.0.5''] (\<lambda>i. Some 1) [] 0
          = Raised ValueError c)"
proof -
  note overwritten =
    init_partial_parameters[of "Some ''192.168.1.1''" None "Some ''mine''"
      "[''DAISY_CONTEXT'' \<mapsto> ''10.0.0.5:9000:worker-7'']" "\<lambda>i. Some 1" "[]" 0
      "[]" "[]" "[]" Map.empty]
  then have "\<forall>a' p' t'. CHR '':'' \<notin> set a' \<and> CHR '':'' \<notin> set p' \<and> CHR '':'' \<notin> set t'
          \<and> ''10.0.0.5:9000:worker-7'' = a' @ '':'' @ p' @ '':'' @ t' \<longrightarrow>
      sched_addr (state_of (init (Some ''192.168.1.1'') None (Some ''mine'')
        [''DAISY_CONTEXT'' \<mapsto> ''10.0.0.5:9000:worker-7''] (\<lambda>i. Some 1) [] 0)) = a'
      \<and> sched_port (state_of (init (Some ''192.168.1.1'') None (Some ''mine'')
        [''DAISY_CONTEXT'' \<mapsto> ''10.0.0.5:9000:worker-7''] (\<lambda>i. Some 1) [] 0)) = p'
      \<and> task_id (state_of (init (Some ''192.168.1.1'') None (Some ''mine'')
        [''DAISY_CONTEXT'' \<mapsto> ''10.0.0.5:9000:worker-7''] (\<lambda>i. Some 1) [] 0)) = t'"
    by simp
  from this[rule_format, of "''10.0.0.5''" "''9000''" "''worker-7''"]
  have fields: "sched_addr (state_of (init (Some ''192.168.1.1'') None (Some ''mine'')
        [''DAISY_CONTEXT'' \<mapsto> ''10.0.0.5:9000:worker-7''] (\<lambda>i. Some 1) [] 0)) = ''10.0.0.5''
      \<and> sched_port (state_of (init (Some ''192.168.1.1'') None (Some ''mine'')
        [''DAISY_CONTEXT'' \<mapsto> ''10.0.0.5:9000:worker-7''] (\<lambda>i. Some 1) [] 0)) = ''9000''
      \<and> task_id (state_of (init (Some ''192.168.1.1'') None (Some ''mine'')
        [''DAISY_CONTEXT'' \<mapsto> ''10.0.0.5:9000:worker-7''] (\<lambda>i. Some 1) [] 0)) = ''worker-7''"
    by simp
  have part: "Some ''192.168.1.1'' = None \<or> (None :: string option) = None \<or> Some ''mine'' = None"
    by simp
  have missing: "\<exists>c. init (Some ''192.168.1.1'') None (Some ''mine'') Map.empty (\<lambda>i. Some 1) [] 0
          = Raised KeyError c"
    by (rule init_partial_parameters[of "Some ''192.168.1.1''" None "Some ''mine''"
        "Map.empty" "\<lambda>i. Some 1" "[]" 0 "[]" "[]" "[]" Map.empty, THEN conjunct1, THEN mp,
        OF part, THEN conjunct2, THEN conjunct1, THEN mp]) simp
  have "\<exists>c. init (Some ''192.168.1.1'') None (Some ''mine'')
            [''DAISY_CONTEXT'' \<mapsto> ''10.0.0.5''] (\<lambda>i. Some 1) [] 0
          = Raised ValueError c"
    by (rule init_partial_parameters[of "Some ''192.168.1.1''" None "Some ''mine''"
      "[''DAISY_CONTEXT'' \<mapsto> ''10.0.0.5'']" "\<lambda>i. Some 1" "[]" 0 "[]" "[]" "[]" Map.empty,
      THEN conjunct1, THEN mp, OF part, THEN conjunct2, THEN conjunct2, THEN conjunct1,
      rule_format, of "''10.0.0.5''"]) simp
  with fields missing show ?thesis by (intro conjI) simp_all
qed

section \<open>Releasing a block\<close>

text \<open>C3. For every block, \<^verbatim>\<open>release_block(block, 0)\<close> hands to \<^verbatim>\<open>send\<close> one \<^verbatim>\<open>WORKER_RET_BLOCK\<close>
  message that carries \<^verbatim>\<open>((task_id, block_id), ReturnCode.SUCCESS)\<close>, \<^verbatim>\<open>release_block(block, 1)\<close>
  one that carries \<^verbatim>\<open>ReturnCode.ERROR\<close>, and for every other integer the message carries
  \<^verbatim>\<open>ReturnCode.SUCCESS\<close> and a warning is logged first. The method has no failing branch: in
  each case the resulting state is the one given.\<close>

theorem release_block_return_code:
  "release_block b 0 c =
     send \<lparr>msg_type = WORKER_RET_BLOCK, msg_data = PyRetBlock ((task_id c, block_id b), SUCCESS)\<rparr>
       (logger LOG_DEBUG ''Releasing block {}'' c)
   \<and> release_block b 1 c =
     send \<lparr>msg_type = WORKER_RET_BLOCK, msg_data = PyRetBlock ((task_id c, block_id b), ERROR)\<rparr>
       (logger LOG_DEBUG ''Releasing block {}'' c)
   \<and> (\<forall>ret. ret \<noteq> 0 \<and> ret \<noteq> 1 \<longrightarrow>
        release_block b ret c =
          send \<lparr>msg_type = WORKER_RET_BLOCK,
                msg_data = PyRetBlock ((task_id c, block_id b), SUCCESS)\<rparr>
            (logger LOG_DEBUG ''Releasing block {}''
              (logger LOG_WARNING
                 ''Daisy user function should return either 0 or 1--given %s'' c)))"
  by (simp add: release_block_def logger_def send_def)

theorem release_block_return_code_witness:
  "outbox (release_block \<lparr>block_id = 42\<rparr> 7 (new_client\<lparr>task_id := ''worker-7''\<rparr>)) =
     [\<lparr>msg_type = WORKER_RET_BLOCK, msg_data = PyRetBlock ((''worker-7'', 42), SUCCESS)\<rparr>]
   \<and> logged (release_block \<lparr>block_id = 42\<rparr> 7 (new_client\<lparr>task_id := ''worker-7''\<rparr>)) =
     [(LOG_WARNING, ''Daisy user function should return either 0 or 1--given %s''),
      (LOG_DEBUG, ''Releasing block {}'')]"
  using release_block_return_code [of "\<lparr>block_id = 42\<rparr>" "new_client\<lparr>task_id := ''worker-7''\<rparr>"]
  by (simp add: new_client_def send_def logger_def)

section \<open>Steps of the receive loop\<close>

lemma recv_step_idle: "recv_loop c \<noteq> RUNNING \<Longrightarrow> recv_step c = c"
  by (simp add: recv_step_def)

lemma recv_step_silent: "inbound c = [] \<Longrightarrow> recv_step c = c"
  by (simp add: recv_step_def)

lemma recv_step_closed:
  "recv_loop c = RUNNING \<Longrightarrow> inbound c = StreamClosedError # rs \<Longrightarrow>
   recv_step c =
     (logger LOG_ERROR ''Unexpected loss of connection to scheduler!'' c)
       \<lparr>job_queue := job_queue c @ [PyNone], inbound := rs, recv_loop := EXITED\<rparr>"
  by (simp add: recv_step_def async_recv_body_def async_recv_finish_def logger_def)

lemma recv_step_new_block:
  "recv_loop c = RUNNING \<Longrightarrow> inbound c = Message m # rs \<Longrightarrow> msg_type m = NEW_BLOCK \<Longrightarrow>
   recv_step c =
     (logger LOG_DEBUG ''Received {}'' c)
       \<lparr>job_queue := job_queue c @ [msg_data m], inbound := rs\<rparr>"
  by (simp add: recv_step_def async_recv_body_def async_recv_finish_def logger_def)

lemma recv_step_terminate:
  "recv_loop c = RUNNING \<Longrightarrow> inbound c = Message m # rs \<Longrightarrow> msg_type m = TERMINATE_WORKER \<Longrightarrow>
   recv_step c =
     (send \<lparr>msg_type = WORKER_EXITING, msg_data = PyNone\<rparr> (logger LOG_DEBUG ''Received {}'' c))
       \<lparr>job_queue := job_queue c @ [PyNone], inbound := rs, recv_loop := EXITED\<rparr>"
  by (simp add: recv_step_def async_recv_body_def async_recv_finish_def logger_def send_def)

lemma recv_step_other:
  "recv_loop c = RUNNING \<Longrightarrow> inbound c = Message m # rs \<Longrightarrow> msg_type m \<noteq> NEW_BLOCK \<Longrightarrow>
   msg_type m \<noteq> TERMINATE_WORKER \<Longrightarrow>
   recv_step c = (logger LOG_DEBUG ''Received {}'' c)\<lparr>inbound := rs\<rparr>"
  by (simp add: recv_step_def async_recv_body_def async_recv_finish_def logger_def)

lemmas recv_step_eqs = recv_step_idle recv_step_silent recv_step_closed recv_step_new_block
  recv_step_terminate recv_step_other

lemma recv_step_flags:
  "connected (recv_step c) = connected c" "error_state (recv_step c) = error_state c"
  "task_id (recv_step c) = task_id c"
proof -
  have "connected (recv_step c) = connected c \<and> error_state (recv_step c) = error_state c
      \<and> task_id (recv_step c) = task_id c"
  proof (cases "recv_loop c = RUNNING")
    case False
    then show ?thesis by (simp add: recv_step_idle)
  next
    case True
    show ?thesis
    proof (cases "inbound c")
      case Nil
      then show ?thesis by (simp add: recv_step_silent)
    next
      case (Cons r rs)
      show ?thesis
      proof (cases r)
        case StreamClosedError
        with True Cons show ?thesis by (simp add: recv_step_closed logger_def)
      next
        case (Message m)
        with True Cons show ?thesis
          by (cases "msg_type m")
             (simp_all add: recv_step_new_block recv_step_terminate recv_step_other logger_def send_def)
      qed
    qed
  qed
  then show "connected (recv_step c) = connected c" "error_state (recv_step c) = error_state c"
    "task_id (recv_step c) = task_id c" by simp_all
qed

lemma pending_recv_step: "pending (recv_step c) = pending c"
proof (cases "recv_loop c = RUNNING")
  case False
  then show ?thesis by (simp add: recv_step_idle)
next
  case True
  show ?thesis
  proof (cases "inbound c")
    case Nil
    then show ?thesis by (simp add: recv_step_silent)
  next
    case (Cons r rs)
    show ?thesis
    proof (cases r)
      case StreamClosedError
      with True Cons show ?thesis by (simp add: recv_step_closed logger_def pending_def)
    next
      case (Message m)
      with True Cons show ?thesis
        by (cases "msg_type m")
           (simp_all add: recv_step_new_block recv_step_terminate recv_step_other logger_def
              send_def pending_def)
    qed
  qed
qed

lemma recv_step_progress:
  "recv_loop c = RUNNING \<Longrightarrow> inbound c = r # rs \<Longrightarrow>
   inbound (recv_step c) = rs \<and> recv_loop (recv_step c) = (if stops r then EXITED else RUNNING)"
proof (cases r)
  case StreamClosedError
  assume "recv_loop c = RUNNING" "inbound c = r # rs"
  with StreamClosedError show ?thesis by (simp add: recv_step_closed logger_def)
next
  case (Message m)
  assume "recv_loop c = RUNNING" "inbound c = r # rs"
  with Message show ?thesis
    by (cases "msg_type m")
       (simp_all add: recv_step_new_block recv_step_terminate recv_step_other logger_def send_def)
qed

lemma async_recv_stop: "\<not> (recv_loop c = RUNNING \<and> inbound c \<noteq> []) \<Longrightarrow> async_recv c = c"
  by (subst async_recv.simps) auto

lemma async_recv_step: "async_recv (recv_step c) = async_recv c"
proof (cases "recv_loop c = RUNNING \<and> inbound c \<noteq> []")
  case True
  then show ?thesis by (subst (2) async_recv.simps) simp
next
  case False
  then have "recv_step c = c" by (auto simp: recv_step_idle recv_step_silent)
  then show ?thesis by simp
qed

lemma async_recv_pending: "job_queue (async_recv c) = pending c"
proof (induction c rule: async_recv.induct)
  case (1 c)
  show ?case
  proof (cases "recv_loop c = RUNNING \<and> inbound c \<noteq> []")
    case True
    with 1 have "job_queue (async_recv (recv_step c)) = pending (recv_step c)" by simp
    then show ?thesis by (simp add: async_recv_step pending_recv_step)
  next
    case False
    then show ?thesis by (auto simp: async_recv_stop pending_def)
  qed
qed

lemma async_recv_arrivals:
  "recv_loop c = RUNNING \<Longrightarrow> job_queue (async_recv c) = job_queue c @ arrivals (inbound c)"
  by (simp add: async_recv_pending pending_def)

section \<open>The blocking pop and schedules\<close>

lemma pop_Cons:
  "job_queue c = x # q \<Longrightarrow>
   job_queue_pop c = (Returns x, logger LOG_DEBUG ''Received block {}'' (c\<lparr>job_queue := q\<rparr>))"
  by (subst job_queue_pop.simps) simp

lemma pop_wait:
  "job_queue c = [] \<Longrightarrow> recv_loop c = RUNNING \<Longrightarrow> inbound c \<noteq> [] \<Longrightarrow>
   job_queue_pop c = job_queue_pop (recv_step c)"
  by (subst job_queue_pop.simps) simp

lemma pop_block:
  "job_queue c = [] \<Longrightarrow> recv_loop c \<noteq> RUNNING \<or> inbound c = [] \<Longrightarrow>
   job_queue_pop c = (Blocks, c)"
  by (subst job_queue_pop.simps) auto

lemma pop_pending:
  "fst (job_queue_pop c) = (case pending c of [] \<Rightarrow> Blocks | x # xs \<Rightarrow> Returns x)
   \<and> pending (snd (job_queue_pop c)) = tl (pending c)"
proof (induction c rule: job_queue_pop.induct)
  case (1 c)
  show ?case
  proof (cases "job_queue c")
    case (Cons x q)
    then show ?thesis by (simp add: pop_Cons pending_def logger_def)
  next
    case Nil
    show ?thesis
    proof (cases "recv_loop c = RUNNING \<and> inbound c \<noteq> []")
      case True
      with 1 Nil have "fst (job_queue_pop (recv_step c)) =
          (case pending (recv_step c) of [] \<Rightarrow> Blocks | x # xs \<Rightarrow> Returns x)
        \<and> pending (snd (job_queue_pop (recv_step c))) = tl (pending (recv_step c))"
        by simp
      with True Nil show ?thesis by (simp add: pop_wait pending_recv_step)
    next
      case False
      with Nil have "job_queue_pop c = (Blocks, c)" by (intro pop_block) auto
      moreover from False Nil have "pending c = []" by (auto simp: pending_def)
      ultimately show ?thesis by simp
    qed
  qed
qed

lemma recv_step_outbox:
  "\<exists>more. outbox (recv_step c) = outbox c @ more \<and> (\<forall>m\<in>set more. msg_type m = WORKER_EXITING)"
proof (cases "recv_loop c = RUNNING")
  case False
  then show ?thesis by (simp add: recv_step_idle)
next
  case True
  show ?thesis
  proof (cases "inbound c")
    case Nil
    then show ?thesis by (simp add: recv_step_silent)
  next
    case (Cons r rs)
    show ?thesis
    proof (cases r)
      case StreamClosedError
      with True Cons show ?thesis by (simp add: recv_step_closed logger_def)
    next
      case (Message m)
      with True Cons show ?thesis
        by (cases "msg_type m")
           (simp_all add: recv_step_new_block recv_step_terminate recv_step_other logger_def
              send_def)
    qed
  qed
qed

lemma pop_outbox:
  "\<exists>more. outbox (snd (job_queue_pop c)) = outbox c @ more
     \<and> (\<forall>m\<in>set more. msg_type m = WORKER_EXITING)"
proof (induction c rule: job_queue_pop.induct)
  case (1 c)
  show ?case
  proof (cases "job_queue c")
    case (Cons x q)
    then show ?thesis by (simp add: pop_Cons logger_def)
  next
    case Nil
    show ?thesis
    proof (cases "recv_loop c = RUNNING \<and> inbound c \<noteq> []")
      case True
      with 1 Nil obtain more where
        m: "outbox (snd (job_queue_pop (recv_step c))) = outbox (recv_step c) @ more"
           "\<forall>m\<in>set more. msg_type m = WORKER_EXITING"
        by blast
      from recv_step_outbox[of c] obtain more' where
        m': "outbox (recv_step c) = outbox c @ more'" "\<forall>m\<in>set more'. msg_type m = WORKER_EXITING"
        by blast
      from True Nil have "job_queue_pop c = job_queue_pop (recv_step c)" by (simp add: pop_wait)
      with m m' show ?thesis by (intro exI[of _ "more' @ more"]) auto
    next
      case False
      with Nil have "job_queue_pop c = (Blocks, c)" by (intro pop_block) auto
      then show ?thesis by simp
    qed
  qed
qed

lemma pop_flags:
  "connected (snd (job_queue_pop c)) = connected c
   \<and> error_state (snd (job_queue_pop c)) = error_state c
   \<and> task_id (snd (job_queue_pop c)) = task_id c"
proof (induction c rule: job_queue_pop.induct)
  case (1 c)
  show ?case
  proof (cases "job_queue c")
    case (Cons x q)
    then show ?thesis by (simp add: pop_Cons logger_def)
  next
    case Nil
    show ?thesis
    proof (cases "recv_loop c = RUNNING \<and> inbound c \<noteq> []")
      case True
      with 1 Nil have "connected (snd (job_queue_pop (recv_step c))) = connected (recv_step c)
        \<and> error_state (snd (job_queue_pop (recv_step c))) = error_state (recv_step c)
        \<and> task_id (snd (job_queue_pop (recv_step c))) = task_id (recv_step c)" by simp
      with True Nil show ?thesis by (simp add: pop_wait recv_step_flags)
    next
      case False
      with Nil have "job_queue_pop c = (Blocks, c)" by (intro pop_block) auto
      then show ?thesis by simp
    qed
  qed
qed

lemma pending_send [simp]: "pending (send m c) = pending c"
  by (simp add: pending_def send_def)

lemma pending_logger [simp]: "pending (logger l f c) = pending c"
  by (simp add: pending_def logger_def)

lemma pending_release_block: "pending (release_block b r c) = pending c"
  by (simp add: release_block_def Let_def split: prod.splits)

lemma release_block_flags:
  "connected (release_block b r c) = connected c"
  "error_state (release_block b r c) = error_state c"
  by (simp_all add: release_block_def Let_def logger_def send_def split: prod.splits)

lemma acquire_block_pending:
  "fst (acquire_block c) = (case pending c of [] \<Rightarrow> Blocks | x # xs \<Rightarrow> Returns x)"
  "pending (snd (acquire_block c)) = tl (pending c)"
  using pop_pending[of "send \<lparr>msg_type = WORKER_GET_BLOCK, msg_data = PyTaskId (task_id c)\<rparr> c"]
  by (simp_all add: acquire_block_def)

lemma acquire_block_flags:
  "connected (snd (acquire_block c)) = connected c"
  "error_state (snd (acquire_block c)) = error_state c"
  using pop_flags[of "send \<lparr>msg_type = WORKER_GET_BLOCK, msg_data = PyTaskId (task_id c)\<rparr> c"]
  by (simp_all add: acquire_block_def send_def)

lemma run_flags:
  "connected (snd (run sched c)) = connected c \<and> error_state (snd (run sched c)) = error_state c"
proof (induction sched c rule: run.induct)
  case (1 c)
  show ?case by simp
next
  case (2 as c)
  then show ?case by (simp add: recv_step_flags)
next
  case (3 b ret as c)
  then show ?case by (simp add: release_block_flags)
next
  case (4 as c)
  show ?case
  proof (cases "acquire_block c")
    case (Pair r c')
    show ?thesis
    proof (cases r)
      case Blocks
      with Pair acquire_block_flags[of c] show ?thesis by simp
    next
      case (Returns x)
      with Pair 4 have "connected (snd (run as c')) = connected c'
          \<and> error_state (snd (run as c')) = error_state c'" by simp
      with Returns Pair acquire_block_flags[of c] show ?thesis
        by (auto split: prod.splits)
    qed
  qed
qed

lemma run_pending:
  "fst (run sched c) =
     map Returns (take (count_list sched Acquire) (pending c))
     @ (if length (pending c) < count_list sched Acquire then [Blocks] else [])
   \<and> pending (snd (run sched c)) = drop (count_list sched Acquire) (pending c)"
proof (induction sched c rule: run.induct)
  case (1 c)
  show ?case by simp
next
  case (2 as c)
  then show ?case by (simp add: pending_recv_step)
next
  case (3 b ret as c)
  then show ?case by (simp add: pending_release_block)
next
  case (4 as c)
  show ?case
  proof (cases "acquire_block c")
    case (Pair r c')
    show ?thesis
    proof (cases "pending c")
      case Nil
      with Pair acquire_block_pending[of c] show ?thesis by simp
    next
      case (Cons x xs)
      with Pair acquire_block_pending[of c] have r: "r = Returns x" and p: "pending c' = xs"
        by simp_all
      from 4 Pair r
      have "fst (run as c') =
         map Returns (take (count_list as Acquire) (pending c'))
         @ (if length (pending c') < count_list as Acquire then [Blocks] else [])
       \<and> pending (snd (run as c')) = drop (count_list as Acquire) (pending c')"
        by simp
      with Pair r p Cons show ?thesis by (auto split: prod.splits)
    qed
  qed
qed

section \<open>The terminal sentinel\<close>

lemma is_blockE: "is_block x \<Longrightarrow> \<exists>b. x = PyBlock b"
  by (cases x) simp_all

lemma wire_ok_Cons:
  "wire_ok (r # rs) \<longleftrightarrow>
     (case r of Message m \<Rightarrow> msg_type m = NEW_BLOCK \<longrightarrow> is_block (msg_data m)
              | StreamClosedError \<Rightarrow> True) \<and> wire_ok rs"
  by (simp add: wire_ok_def)

lemma arrivals_wire:
  "wire_ok rs \<Longrightarrow>
   \<exists>bs. arrivals rs = map PyBlock bs @ (if list_ex stops rs then [PyNone] else [])"
proof (induction rs rule: arrivals.induct)
  case 1
  show ?case by simp
next
  case (2 rs)
  show ?case by simp
next
  case (3 m rs)
  show ?case
  proof (cases "msg_type m = NEW_BLOCK")
    case True
    with 3 obtain b where b: "msg_data m = PyBlock b"
      using is_blockE by (auto simp: wire_ok_Cons)
    from 3 True obtain bs where
      "arrivals rs = map PyBlock bs @ (if list_ex stops rs then [PyNone] else [])"
      by (auto simp: wire_ok_Cons)
    with True b show ?thesis
      by (intro exI[of _ "b # bs"]) simp
  next
    case False
    show ?thesis
    proof (cases "msg_type m = TERMINATE_WORKER")
      case True
      then show ?thesis by simp
    next
      case nt: False
      with 3 False obtain bs where
        "arrivals rs = map PyBlock bs @ (if list_ex stops rs then [PyNone] else [])"
        by (auto simp: wire_ok_Cons)
      with False nt show ?thesis by (intro exI[of _ bs]) simp
    qed
  qed
qed

lemma recv_step_shape:
  assumes "wire_ok (inbound c)" "recv_loop c \<noteq> IDLE"
    and "\<exists>bs. job_queue c = map PyBlock bs @ (if recv_loop c = EXITED then [PyNone] else [])"
  shows "wire_ok (inbound (recv_step c)) \<and> recv_loop (recv_step c) \<noteq> IDLE
    \<and> (\<exists>bs. job_queue (recv_step c) =
           map PyBlock bs @ (if recv_loop (recv_step c) = EXITED then [PyNone] else []))"
proof (cases "recv_loop c = RUNNING")
  case False
  with assms show ?thesis by (simp add: recv_step_idle)
next
  case True
  then obtain bs where bs: "job_queue c = map PyBlock bs" using assms(3) by auto
  show ?thesis
  proof (cases "inbound c")
    case Nil
    with assms show ?thesis by (simp add: recv_step_silent)
  next
    case (Cons r rs)
    with assms(1) have ok: "wire_ok rs" by (simp add: wire_ok_Cons)
    show ?thesis
    proof (cases r)
      case StreamClosedError
      with True Cons ok bs show ?thesis by (auto simp add: recv_step_closed logger_def)
    next
      case (Message m)
      show ?thesis
      proof (cases "msg_type m = NEW_BLOCK")
        case nb: True
        with assms(1) Cons Message obtain b where "msg_data m = PyBlock b"
          using is_blockE by (auto simp: wire_ok_Cons)
        with True Cons Message nb ok bs show ?thesis
          by (simp add: recv_step_new_block logger_def) (rule exI[of _ "bs @ [b]"], simp)
      next
        case False
        show ?thesis
        proof (cases "msg_type m = TERMINATE_WORKER")
          case t: True
          with True Cons Message ok bs show ?thesis
            by (auto simp add: recv_step_terminate logger_def send_def)
        next
          case nt: False
          with True Cons Message False ok bs show ?thesis
            by (auto simp add: recv_step_other logger_def)
        qed
      qed
    qed
  qed
qed

lemma recv_steps_shape:
  "wire_ok (inbound c) \<Longrightarrow> recv_loop c \<noteq> IDLE \<Longrightarrow>
   \<exists>bs. job_queue c = map PyBlock bs @ (if recv_loop c = EXITED then [PyNone] else []) \<Longrightarrow>
   \<exists>bs. job_queue (recv_steps n c) =
           map PyBlock bs @ (if recv_loop (recv_steps n c) = EXITED then [PyNone] else [])"
proof (induction n arbitrary: c)
  case 0
  then show ?case by simp
next
  case (Suc n)
  from recv_step_shape[OF Suc.prems] Suc.IH[of "recv_step c"] show ?case by simp
qed

lemma recv_steps_exited: "recv_loop c = EXITED \<Longrightarrow> recv_steps m c = c"
  by (induction m) (simp_all add: recv_step_idle)

lemma async_recv_exit:
  "recv_loop c = RUNNING \<Longrightarrow>
   recv_loop (async_recv c) = (if list_ex stops (inbound c) then EXITED else RUNNING)"
proof (induction c rule: async_recv.induct)
  case (1 c)
  show ?case
  proof (cases "inbound c")
    case Nil
    with 1(2) show ?thesis by (simp add: async_recv_stop)
  next
    case (Cons r rs)
    note p = recv_step_progress[OF 1(2) Cons]
    show ?thesis
    proof (cases "stops r")
      case True
      with p have "async_recv (recv_step c) = recv_step c" by (simp add: async_recv_stop)
      with True p Cons show ?thesis by (simp add: async_recv_step)
    next
      case False
      with p 1(1) 1(2) Cons
      have "recv_loop (async_recv (recv_step c)) =
              (if list_ex stops (inbound (recv_step c)) then EXITED else RUNNING)" by simp
      with False p Cons show ?thesis by (simp add: async_recv_step)
    qed
  qed
qed

text \<open>C1. On a fresh connection whose \<^verbatim>\<open>NEW_BLOCK\<close> messages carry blocks, after any number of
  steps of the receive loop the queue holds blocks only, followed by exactly one \<^verbatim>\<open>None\<close> when
  the loop has returned and by nothing while it is running; once the loop has returned, further
  steps change nothing, so that no block follows the sentinel. The loop returns exactly when
  the stream yields a \<^verbatim>\<open>TERMINATE_WORKER\<close> message or is closed, and on both paths the queue
  then ends with the single sentinel.\<close>

theorem async_recv_single_sentinel:
  assumes "recv_loop c = RUNNING" and "job_queue c = []" and "wire_ok (inbound c)"
  shows
  "(\<exists>bs. job_queue (recv_steps n c) =
           map PyBlock bs @ (if recv_loop (recv_steps n c) = EXITED then [PyNone] else []))
   \<and> (recv_loop (recv_steps n c) = EXITED \<longrightarrow>
        (\<forall>m. recv_steps m (recv_steps n c) = recv_steps n c))
   \<and> recv_loop (async_recv c) = (if list_ex stops (inbound c) then EXITED else RUNNING)
   \<and> (\<exists>bs. job_queue (async_recv c) =
           map PyBlock bs @ (if list_ex stops (inbound c) then [PyNone] else []))"
proof -
  have shape: "\<exists>bs. job_queue (recv_steps n c) =
           map PyBlock bs @ (if recv_loop (recv_steps n c) = EXITED then [PyNone] else [])"
    using assms by (intro recv_steps_shape) simp_all
  have stable: "recv_loop (recv_steps n c) = EXITED \<longrightarrow>
        (\<forall>m. recv_steps m (recv_steps n c) = recv_steps n c)"
    by (simp add: recv_steps_exited)
  have exit: "recv_loop (async_recv c) = (if list_ex stops (inbound c) then EXITED else RUNNING)"
    using assms(1) by (rule async_recv_exit)
  have final: "\<exists>bs. job_queue (async_recv c) =
           map PyBlock bs @ (if list_ex stops (inbound c) then [PyNone] else [])"
    using arrivals_wire[OF assms(3)] assms(1,2) by (simp add: async_recv_arrivals)
  from shape stable exit final show ?thesis by (intro conjI)
qed

theorem async_recv_single_sentinel_witness:
  "job_queue (recv_steps 3
      (new_client\<lparr>recv_loop := RUNNING,
         inbound := [Message \<lparr>msg_type = NEW_BLOCK, msg_data = PyBlock \<lparr>block_id = 42\<rparr>\<rparr>,
                     Message \<lparr>msg_type = TERMINATE_WORKER, msg_data = PyNone\<rparr>,
                     Message \<lparr>msg_type = NEW_BLOCK, msg_data = PyBlock \<lparr>block_id = 43\<rparr>\<rparr>]\<rparr>))
     = [PyBlock \<lparr>block_id = 42\<rparr>, PyNone]
   \<and> recv_loop (async_recv
      (new_client\<lparr>recv_loop := RUNNING,
         inbound := [Message \<lparr>msg_type = NEW_BLOCK, msg_data = PyBlock \<lparr>block_id = 42\<rparr>\<rparr>,
                     StreamClosedError]\<rparr>)) = EXITED
   \<and> job_queue (async_recv
      (new_client\<lparr>recv_loop := RUNNING,
         inbound := [Message \<lparr>msg_type = NEW_BLOCK, msg_data = PyBlock \<lparr>block_id = 42\<rparr>\<rparr>,
                     StreamClosedError]\<rparr>)) = [PyBlock \<lparr>block_id = 42\<rparr>, PyNone]"
  using async_recv_single_sentinel[of
      "new_client\<lparr>recv_loop := RUNNING,
         inbound := [Message \<lparr>msg_type = NEW_BLOCK, msg_data = PyBlock \<lparr>block_id = 42\<rparr>\<rparr>,
                     Message \<lparr>msg_type = TERMINATE_WORKER, msg_data = PyNone\<rparr>,
                     Message \<lparr>msg_type = NEW_BLOCK, msg_data = PyBlock \<lparr>block_id = 43\<rparr>\<rparr>]\<rparr>" 3]
    async_recv_single_sentinel[of
      "new_client\<lparr>recv_loop := RUNNING,
         inbound := [Message \<lparr>msg_type = NEW_BLOCK, msg_data = PyBlock \<lparr>block_id = 42\<rparr>\<rparr>,
                     StreamClosedError]\<rparr>" 0]
  by (simp add: new_client_def wire_ok_def numeral_3_eq_3 recv_step_def async_recv_body_def
        async_recv_finish_def logger_def send_def async_recv_arrivals)

section \<open>Delivery in order\<close>

lemma arrivals_new_blocks:
  "arrivals (map (\<lambda>b. Message \<lparr>msg_type = NEW_BLOCK, msg_data = PyBlock b\<rparr>) bs @ rest)
     = map PyBlock bs @ arrivals rest"
  by (induction bs) simp_all

text \<open>C2. When the stream of a fresh connection yields \<^verbatim>\<open>NEW_BLOCK\<close> messages for the blocks
  \<open>bs\<close> (any number of them, followed by anything), then under every schedule that holds as many
  calls of \<^verbatim>\<open>acquire_block\<close> as there are blocks, wherever the steps of the receive loop fall
  between the calls, the calls return the blocks in the order of the messages.\<close>

theorem acquire_block_fifo:
  assumes "recv_loop c = RUNNING" and "job_queue c = []"
    and "inbound c = map (\<lambda>b. Message \<lparr>msg_type = NEW_BLOCK, msg_data = PyBlock b\<rparr>) bs @ rest"
    and "count_list sched Acquire = length bs"
  shows "fst (run sched c) = map (\<lambda>b. Returns (PyBlock b)) bs"
proof -
  have "pending c = map PyBlock bs @ arrivals rest"
    using assms(1-3) by (simp add: pending_def arrivals_new_blocks)
  with run_pending[of sched c] assms(4) show ?thesis by (simp add: comp_def)
qed

theorem acquire_block_fifo_witness:
  "fst (run [Tick, Acquire, Acquire, Tick, Release \<lparr>block_id = 1\<rparr> 0, Tick, Acquire]
     (new_client\<lparr>recv_loop := RUNNING,
        inbound := [Message \<lparr>msg_type = NEW_BLOCK, msg_data = PyBlock \<lparr>block_id = 1\<rparr>\<rparr>,
                    Message \<lparr>msg_type = NEW_BLOCK, msg_data = PyBlock \<lparr>block_id = 2\<rparr>\<rparr>,
                    Message \<lparr>msg_type = NEW_BLOCK, msg_data = PyBlock \<lparr>block_id = 3\<rparr>\<rparr>,
                    Message \<lparr>msg_type = TERMINATE_WORKER, msg_data = PyNone\<rparr>]\<rparr>))
   = [Returns (PyBlock \<lparr>block_id = 1\<rparr>), Returns (PyBlock \<lparr>block_id = 2\<rparr>),
      Returns (PyBlock \<lparr>block_id = 3\<rparr>)]"
  using acquire_block_fifo[of
     "new_client\<lparr>recv_loop := RUNNING,
        inbound := [Message \<lparr>msg_type = NEW_BLOCK, msg_data = PyBlock \<lparr>block_id = 1\<rparr>\<rparr>,
                    Message \<lparr>msg_type = NEW_BLOCK, msg_data = PyBlock \<lparr>block_id = 2\<rparr>\<rparr>,
                    Message \<lparr>msg_type = NEW_BLOCK, msg_data = PyBlock \<lparr>block_id = 3\<rparr>\<rparr>,
                    Message \<lparr>msg_type = TERMINATE_WORKER, msg_data = PyNone\<rparr>]\<rparr>"
     "[\<lparr>block_id = 1\<rparr>, \<lparr>block_id = 2\<rparr>, \<lparr>block_id = 3\<rparr>]"
     "[Message \<lparr>msg_type = TERMINATE_WORKER, msg_data = PyNone\<rparr>]"
     "[Tick, Acquire, Acquire, Tick, Release \<lparr>block_id = 1\<rparr> 0, Tick, Acquire]"]
  by (simp add: new_client_def del: run.simps)

lemma pending_block_or_none:
  assumes "wire_ok (inbound c)" and "list_all (\<lambda>x. is_block x \<or> x = PyNone) (job_queue c)"
  shows "list_all (\<lambda>x. is_block x \<or> x = PyNone) (pending c)"
proof -
  from arrivals_wire[OF assms(1)] obtain bs where
    "arrivals (inbound c) = map PyBlock bs @ (if list_ex stops (inbound c) then [PyNone] else [])"
    by blast
  then have "list_all (\<lambda>x. is_block x \<or> x = PyNone) (arrivals (inbound c))"
    by (auto simp add: list_all_iff)
  with assms(2) show ?thesis by (simp add: pending_def)
qed

text \<open>C7. A call of \<^verbatim>\<open>acquire_block\<close> hands one \<^verbatim>\<open>WORKER_GET_BLOCK\<close> message with the task
  identifier to \<^verbatim>\<open>send\<close> before anything else (the receive loop may add \<^verbatim>\<open>WORKER_EXITING\<close> while
  the caller waits). It then pops once: with \<open>job_queue (async_recv c)\<close> being all that is or
  will ever be in the queue, the call never returns when that is empty, and otherwise returns
  its head and leaves its tail. When the queue is not empty the head is popped at once. On a
  well-formed connection the value returned is a block or \<^verbatim>\<open>None\<close>.\<close>

theorem acquire_block_single_pop:
  "(\<exists>more. outbox (snd (acquire_block c)) =
        outbox c @ \<lparr>msg_type = WORKER_GET_BLOCK, msg_data = PyTaskId (task_id c)\<rparr> # more
      \<and> (\<forall>m\<in>set more. msg_type m = WORKER_EXITING))
   \<and> (case job_queue (async_recv c) of
         [] \<Rightarrow> fst (acquire_block c) = Blocks
       | x # xs \<Rightarrow> fst (acquire_block c) = Returns x
                  \<and> job_queue (async_recv (snd (acquire_block c))) = xs)
   \<and> (\<forall>x q. job_queue c = x # q \<longrightarrow>
         acquire_block c =
           (Returns x,
            logger LOG_DEBUG ''Received block {}''
              ((send \<lparr>msg_type = WORKER_GET_BLOCK, msg_data = PyTaskId (task_id c)\<rparr> c)
                 \<lparr>job_queue := q\<rparr>)))
   \<and> (wire_ok (inbound c) \<and> list_all (\<lambda>x. is_block x \<or> x = PyNone) (job_queue c) \<longrightarrow>
         (\<forall>x. fst (acquire_block c) = Returns x \<longrightarrow> is_block x \<or> x = PyNone))"
proof -
  let ?get = "\<lparr>msg_type = WORKER_GET_BLOCK, msg_data = PyTaskId (task_id c)\<rparr>"
  have sent: "\<exists>more. outbox (snd (acquire_block c)) = outbox c @ ?get # more
      \<and> (\<forall>m\<in>set more. msg_type m = WORKER_EXITING)"
    using pop_outbox[of "send ?get c"] by (simp add: acquire_block_def send_def)
  have popped: "case job_queue (async_recv c) of
         [] \<Rightarrow> fst (acquire_block c) = Blocks
       | x # xs \<Rightarrow> fst (acquire_block c) = Returns x
                  \<and> job_queue (async_recv (snd (acquire_block c))) = xs"
    by (simp add: async_recv_pending acquire_block_pending split: list.splits)
  have ready: "\<forall>x q. job_queue c = x # q \<longrightarrow>
         acquire_block c =
           (Returns x, logger LOG_DEBUG ''Received block {}'' ((send ?get c)\<lparr>job_queue := q\<rparr>))"
    by (simp add: acquire_block_def pop_Cons send_def)
  have typed: "wire_ok (inbound c) \<and> list_all (\<lambda>x. is_block x \<or> x = PyNone) (job_queue c) \<longrightarrow>
         (\<forall>x. fst (acquire_block c) = Returns x \<longrightarrow> is_block x \<or> x = PyNone)"
  proof (intro impI allI)
    fix x
    assume "wire_ok (inbound c) \<and> list_all (\<lambda>x. is_block x \<or> x = PyNone) (job_queue c)"
    then have "list_all (\<lambda>x. is_block x \<or> x = PyNone) (pending c)"
      using pending_block_or_none by blast
    moreover assume "fst (acquire_block c) = Returns x"
    ultimately show "is_block x \<or> x = PyNone"
      by (cases "pending c") (simp_all add: acquire_block_pending)
  qed
  from sent popped ready typed show ?thesis by (intro conjI)
qed

theorem acquire_block_single_pop_witness:
  "fst (acquire_block
     (new_client\<lparr>task_id := ''worker-7'', recv_loop := RUNNING,
        inbound := [Message \<lparr>msg_type = NEW_BLOCK, msg_data = PyBlock \<lparr>block_id = 42\<rparr>\<rparr>]\<rparr>))
     = Returns (PyBlock \<lparr>block_id = 42\<rparr>)
   \<and> job_queue (snd (acquire_block
     (new_client\<lparr>task_id := ''worker-7'', recv_loop := RUNNING,
        inbound := [Message \<lparr>msg_type = NEW_BLOCK, msg_data = PyBlock \<lparr>block_id = 42\<rparr>\<rparr>]\<rparr>)))
     = []
   \<and> fst (acquire_block (new_client\<lparr>task_id := ''worker-7'', recv_loop := RUNNING\<rparr>)) = Blocks
   \<and> outbox (snd (acquire_block (new_client\<lparr>task_id := ''worker-7'', recv_loop := RUNNING\<rparr>)))
     = [\<lparr>msg_type = WORKER_GET_BLOCK, msg_data = PyTaskId ''worker-7''\<rparr>]"
proof -
  let ?c1 = "new_client\<lparr>task_id := ''worker-7'', recv_loop := RUNNING,
        inbound := [Message \<lparr>msg_type = NEW_BLOCK, msg_data = PyBlock \<lparr>block_id = 42\<rparr>\<rparr>]\<rparr>"
  let ?c2 = "new_client\<lparr>task_id := ''worker-7'', recv_loop := RUNNING\<rparr>"
  have q1: "job_queue (async_recv ?c1) = [PyBlock \<lparr>block_id = 42\<rparr>]"
    by (simp add: async_recv_pending pending_def new_client_def)
  have q2: "job_queue (async_recv ?c2) = []"
    by (simp add: async_recv_pending pending_def new_client_def)
  note t1 = acquire_block_single_pop[of ?c1, THEN conjunct2, THEN conjunct1]
  note t2 = acquire_block_single_pop[of ?c2, THEN conjunct2, THEN conjunct1]
  from t1 have r1: "fst (acquire_block ?c1) = Returns (PyBlock \<lparr>block_id = 42\<rparr>)"
    and "job_queue (async_recv (snd (acquire_block ?c1))) = []"
    unfolding q1 by simp_all
  then have r2: "job_queue (snd (acquire_block ?c1)) = []"
    by (simp add: async_recv_pending pending_def)
  from t2 have r3: "fst (acquire_block ?c2) = Blocks"
    unfolding q2 by simp
  have "acquire_block ?c2 =
      (Blocks, send \<lparr>msg_type = WORKER_GET_BLOCK, msg_data = PyTaskId ''worker-7''\<rparr> ?c2)"
    by (simp add: acquire_block_def pop_block send_def new_client_def)
  then have r4: "outbox (snd (acquire_block ?c2))
     = [\<lparr>msg_type = WORKER_GET_BLOCK, msg_data = PyTaskId ''worker-7''\<rparr>]"
    by (simp add: send_def new_client_def)
  from r1 r2 r3 r4 show ?thesis by (intro conjI)
qed

section \<open>After the sentinel\<close>

lemma sentinel_taken:
  assumes "x \<notin> set ys" and "x \<in> set (take n (ys @ zs))"
  shows "length ys < n"
proof (rule ccontr)
  assume "\<not> length ys < n"
  then have "n \<le> length ys" by simp
  then have eq: "take n (ys @ zs) = take n ys" by simp
  from assms(2) have "x \<in> set (take n ys)" unfolding eq .
  then have "x \<in> set ys" by (rule in_set_takeD)
  with assms(1) show False by simp
qed

text \<open>C8, as amended. On a fresh connection whose \<^verbatim>\<open>NEW_BLOCK\<close> messages carry blocks, once a
  call of \<^verbatim>\<open>acquire_block\<close> has returned \<^verbatim>\<open>None\<close>, the next call never returns: the queue is
  empty and the receive loop has returned, so that nothing is appended any more. The caller
  has to stop at the first \<^verbatim>\<open>None\<close>.\<close>

theorem acquire_block_after_sentinel_blocks:
  assumes "recv_loop c = RUNNING" and "job_queue c = []" and "wire_ok (inbound c)"
    and "Returns PyNone \<in> set (fst (run sched c))"
  shows "fst (acquire_block (snd (run sched c))) = Blocks"
proof -
  from arrivals_wire[OF assms(3)] obtain bs where
    "arrivals (inbound c) = map PyBlock bs @ (if list_ex stops (inbound c) then [PyNone] else [])"
    by blast
  with assms(1,2) have p:
    "pending c = map PyBlock bs @ (if list_ex stops (inbound c) then [PyNone] else [])"
    by (simp add: pending_def)
  let ?n = "count_list sched Acquire"
  from assms(4) run_pending[of sched c]
  have "PyNone \<in> set (take ?n (pending c))" by (auto split: if_splits)
  moreover have "PyNone \<notin> set (map PyBlock bs)" by auto
  ultimately have "length (map PyBlock bs) < ?n"
    unfolding p by (rule sentinel_taken[rotated])
  then have "drop ?n (pending c) = []" by (auto simp add: p)
  with run_pending[of sched c] have "pending (snd (run sched c)) = []" by simp
  then show ?thesis by (simp add: acquire_block_pending)
qed

theorem acquire_block_after_sentinel_blocks_witness:
  "fst (acquire_block (snd (run [Acquire, Tick, Acquire]
     (new_client\<lparr>recv_loop := RUNNING,
        inbound := [Message \<lparr>msg_type = NEW_BLOCK, msg_data = PyBlock \<lparr>block_id = 42\<rparr>\<rparr>,
                    Message \<lparr>msg_type = TERMINATE_WORKER, msg_data = PyNone\<rparr>]\<rparr>)))) = Blocks"
proof -
  let ?c = "new_client\<lparr>recv_loop := RUNNING,
        inbound := [Message \<lparr>msg_type = NEW_BLOCK, msg_data = PyBlock \<lparr>block_id = 42\<rparr>\<rparr>,
                    Message \<lparr>msg_type = TERMINATE_WORKER, msg_data = PyNone\<rparr>]\<rparr>"
  have "fst (run [Acquire, Tick, Acquire] ?c) = [Returns (PyBlock \<lparr>block_id = 42\<rparr>), Returns PyNone]"
    using run_pending[of "[Acquire, Tick, Acquire]" ?c]
    by (simp add: pending_def new_client_def del: run.simps)
  then have "Returns PyNone \<in> set (fst (run [Acquire, Tick, Acquire] ?c))" by simp
  moreover have "recv_loop ?c = RUNNING" "job_queue ?c = []" "wire_ok (inbound ?c)"
    by (simp_all add: new_client_def wire_ok_def)
  ultimately show ?thesis
    using acquire_block_after_sentinel_blocks[of ?c "[Acquire, Tick, Acquire]"] by blast
qed

text \<open>C8 as stated fails: the scheduler sends one block and \<^verbatim>\<open>TERMINATE_WORKER\<close>; the first
  call returns the block, the second returns \<^verbatim>\<open>None\<close>, and the call made after the sentinel has
  been consumed never returns.\<close>

theorem acquire_block_after_sentinel_counterexample:
  "fst (run [Acquire, Acquire, Acquire]
     (new_client\<lparr>connected := True, task_id := ''worker-7'', recv_loop := RUNNING,
        inbound := [Message \<lparr>msg_type = NEW_BLOCK, msg_data = PyBlock \<lparr>block_id = 42\<rparr>\<rparr>,
                    Message \<lparr>msg_type = TERMINATE_WORKER, msg_data = PyNone\<rparr>]\<rparr>))
   = [Returns (PyBlock \<lparr>block_id = 42\<rparr>), Returns PyNone, Blocks]"
  using run_pending[of "[Acquire, Acquire, Acquire]"
     "new_client\<lparr>connected := True, task_id := ''worker-7'', recv_loop := RUNNING,
        inbound := [Message \<lparr>msg_type = NEW_BLOCK, msg_data = PyBlock \<lparr>block_id = 42\<rparr>\<rparr>,
                    Message \<lparr>msg_type = TERMINATE_WORKER, msg_data = PyNone\<rparr>]\<rparr>"]
  by (simp add: pending_def new_client_def del: run.simps)

section \<open>The two flags\<close>

lemma init_Raised_flags:
  assumes "init addr port tid environ net rs d = Raised e c"
  shows "\<not> connected c \<and> \<not> error_state c"
proof (cases "read_context addr port tid environ (logger LOG_INFO ''ClientScheduler init'' new_client)")
  case (Inl x)
  then show ?thesis using assms
    by (cases "addr = None \<or> port = None \<or> tid = None")
       (auto simp: init_def read_context_environ read_context_def logger_def new_client_def
             split: option.splits list.splits)
next
  case (Inr y)
  then obtain a p t c' where "y = ((a, p, t), c')" by (metis prod_cases3 surj_pair)
  with Inr assms show ?thesis by (simp add: init_resolved wait_not_Raised)
qed

lemma init_flags:
  "(\<exists>e c. init addr port tid environ net rs d = Raised e c \<and> \<not> connected c \<and> \<not> error_state c)
   \<or> (\<exists>c1. init addr port tid environ net rs d = wait_for_connection d (start net rs c1)
          \<and> \<not> connected c1 \<and> \<not> error_state c1)"
proof -
  from init_cases[of addr port tid environ net rs d] show ?thesis
  proof
    assume "\<exists>e c. init addr port tid environ net rs d = Raised e c"
    then obtain e c where r: "init addr port tid environ net rs d = Raised e c" by blast
    from init_Raised_flags[OF r] r show ?thesis by blast
  next
    assume "\<exists>c. init addr port tid environ net rs d = wait_for_connection d (start net rs c)"
    then obtain c where "init addr port tid environ net rs d = wait_for_connection d (start net rs c)"
      by blast
    from init_flags_initial[OF this] show ?thesis by blast
  qed
qed

text \<open>C9. After the constructor, and after any schedule of receive-loop steps and calls that
  follows it, \<^verbatim>\<open>connected\<close> and \<^verbatim>\<open>error_state\<close> are not both set: a constructed client has
  \<^verbatim>\<open>connected\<close> alone, a constructor that exits has \<^verbatim>\<open>error_state\<close> alone. \<^verbatim>\<open>_start\<close>, begun
  with both flags unset, sets \<^verbatim>\<open>connected\<close> exactly when one of the eleven attempts succeeds
  and \<^verbatim>\<open>error_state\<close> exactly when all of them fail.\<close>

theorem flags_exclusive:
  "\<not> (connected (snd (run sched (state_of (init addr port tid environ net rs d))))
       \<and> error_state (snd (run sched (state_of (init addr port tid environ net rs d)))))
   \<and> (\<forall>c. init addr port tid environ net rs d = Constructed c \<longrightarrow>
         connected (snd (run sched c)) \<and> \<not> error_state (snd (run sched c)))
   \<and> (\<forall>n c. init addr port tid environ net rs d = Exited n c \<longrightarrow>
         error_state c \<and> \<not> connected c)
   \<and> (\<not> connected c0 \<and> \<not> error_state c0 \<longrightarrow>
         connected (start net rs c0) = (\<exists>j\<le>10. net j \<noteq> None)
       \<and> error_state (start net rs c0) = (\<forall>j\<le>10. net j = None))"
proof -
  let ?i = "init addr port tid environ net rs d"
  have st: "\<not> connected c0 \<and> \<not> error_state c0 \<longrightarrow>
         connected (start net rs c0) = (\<exists>j\<le>10. net j \<noteq> None)
       \<and> error_state (start net rs c0) = (\<forall>j\<le>10. net j = None)"
    by (simp add: start_connected start_error_state)
  have both: "\<not> (connected (state_of ?i) \<and> error_state (state_of ?i))"
    and con: "\<forall>c. ?i = Constructed c \<longrightarrow> connected c \<and> \<not> error_state c"
    and ex: "\<forall>n c. ?i = Exited n c \<longrightarrow> error_state c \<and> \<not> connected c"
  proof -
    from init_flags[of addr port tid environ net rs d]
    have "\<not> (connected (state_of ?i) \<and> error_state (state_of ?i))
      \<and> (\<forall>c. ?i = Constructed c \<longrightarrow> connected c \<and> \<not> error_state c)
      \<and> (\<forall>n c. ?i = Exited n c \<longrightarrow> error_state c \<and> \<not> connected c)"
    proof (elim disjE exE conjE)
      fix e c assume "?i = Raised e c" "\<not> connected c" "\<not> error_state c"
      then show ?thesis by simp
    next
      fix c1 assume w: "?i = wait_for_connection d (start net rs c1)"
        and f: "\<not> connected c1" "\<not> error_state c1"
      have x: "\<not> (connected (start net rs c1) \<and> error_state (start net rs c1))"
        using f by (auto simp: start_connected start_error_state)
      show ?thesis
        unfolding w using x
        by (auto simp add: wait_for_connection_eq logger_def split: if_splits)
    qed
    then show "\<not> (connected (state_of ?i) \<and> error_state (state_of ?i))"
      and "\<forall>c. ?i = Constructed c \<longrightarrow> connected c \<and> \<not> error_state c"
      and "\<forall>n c. ?i = Exited n c \<longrightarrow> error_state c \<and> \<not> connected c" by blast+
  qed
  have a: "\<not> (connected (snd (run sched (state_of ?i))) \<and> error_state (snd (run sched (state_of ?i))))"
    using both by (simp add: run_flags)
  have b: "\<forall>c. ?i = Constructed c \<longrightarrow>
         connected (snd (run sched c)) \<and> \<not> error_state (snd (run sched c))"
    using con by (simp add: run_flags)
  from a b ex st show ?thesis by (intro conjI)
qed

theorem flags_exclusive_witness:
  "(\<exists>c. init (Some ''10.0.0.5'') (Some ''9000'') (Some ''worker-7'') Map.empty
           (\<lambda>i. if i < 4 then None else Some 1)
           [Message \<lparr>msg_type = NEW_BLOCK, msg_data = PyBlock \<lparr>block_id = 42\<rparr>\<rparr>] 2 = Constructed c
        \<and> connected (snd (run [Acquire, Release \<lparr>block_id = 42\<rparr> 0] c))
        \<and> \<not> error_state (snd (run [Acquire, Release \<lparr>block_id = 42\<rparr> 0] c)))
   \<and> connected (start (\<lambda>i. if i < 4 then None else Some 1) [] new_client)
   \<and> \<not> error_state (start (\<lambda>i. if i < 4 then None else Some 1) [] new_client)
   \<and> error_state (start (\<lambda>i. None) [] new_client)
   \<and> \<not> connected (start (\<lambda>i. None) [] new_client)"
proof -
  let ?net = "\<lambda>i::nat. if i < 4 then None else Some (1::nat)"
  let ?rs = "[Message \<lparr>msg_type = NEW_BLOCK, msg_data = PyBlock \<lparr>block_id = 42\<rparr>\<rparr>]"
  let ?i = "init (Some ''10.0.0.5'') (Some ''9000'') (Some ''worker-7'') Map.empty ?net ?rs 2"
  let ?sched = "[Acquire, Release \<lparr>block_id = 42\<rparr> 0]"
  have ok: "\<exists>j\<le>10. ?net j \<noteq> None" by (intro exI[of _ 4]) simp
  have "\<exists>c. ?i = Constructed c"
    using ok by (simp add: init_given wait_for_connection_eq start_connected)
  then obtain c where c: "?i = Constructed c" by blast
  note fe = flags_exclusive[of ?sched "Some ''10.0.0.5''" "Some ''9000''" "Some ''worker-7''"
         Map.empty ?net ?rs 2 new_client]
  have 1: "connected (snd (run ?sched c)) \<and> \<not> error_state (snd (run ?sched c))"
    by (rule fe[THEN conjunct2, THEN conjunct1, rule_format, OF c])
  have f: "\<not> connected new_client \<and> \<not> error_state new_client" by (simp add: new_client_def)
  note st = flags_exclusive[of ?sched "Some ''10.0.0.5''" "Some ''9000''" "Some ''worker-7''"
         Map.empty ?net "[]" 2 new_client,
         THEN conjunct2, THEN conjunct2, THEN conjunct2, THEN mp, OF f]
  have 2: "connected (start ?net [] new_client)" "\<not> error_state (start ?net [] new_client)"
    using st ok by simp_all
  note st' = flags_exclusive[of ?sched "Some ''10.0.0.5''" "Some ''9000''" "Some ''worker-7''"
         Map.empty "\<lambda>i. None" "[]" 2 new_client,
         THEN conjunct2, THEN conjunct2, THEN conjunct2, THEN mp, OF f]
  have 3: "error_state (start (\<lambda>i. None) [] new_client)"
      "\<not> connected (start (\<lambda>i. None) [] new_client)"
    using st' by simp_all
  have "\<exists>c. ?i = Constructed c
        \<and> connected (snd (run ?sched c)) \<and> \<not> error_state (snd (run ?sched c))"
    using c 1 by (intro exI[of _ c]) simp
  with 2 3 show ?thesis by (intro conjI)
qed

end
